theory Spec2Isabelle
  imports Complex_Main
begin

section \<open>Data model\<close>

text \<open>
  The \<^verbatim>\<open>Restaurant\<close> objects that the handlers return and the page component
  keeps. Field \<^verbatim>\<open>id\<close> is \<open>id_r\<close> and the restaurant's \<^verbatim>\<open>coordinates\<close> is
  \<open>coordinates_r\<close> (the page state has a field \<^verbatim>\<open>coordinates\<close> of its own).
  \<open>raw_price_level\<close> is the extra field the places-search handler attaches; it is absent
  (\<open>None\<close>) on the emergency entries. JavaScript strings are kept as byte strings, a
  character outside ASCII as its UTF-8 bytes.
\<close>

record restaurant =
  id_r :: string
  name :: string
  cuisine :: string
  price_level :: nat
  rating :: real
  address :: string
  vibe_short :: string
  must_order_dish :: string
  coordinates_r :: "real \<times> real"
  raw_price_level :: "string option"

text \<open>A JSON response body: a bare array, or the object \<^verbatim>\<open>{restaurants, nextPageToken}\<close>.\<close>

datatype json_body =
  JArray "restaurant list"
| JPage "restaurant list" "string option"

record http_response =
  status :: nat
  body :: json_body

text \<open>\<^verbatim>\<open>NextResponse.json(x)\<close> with no init argument answers with status 200.\<close>

definition NextResponse_json :: "json_body \<Rightarrow> http_response" where
  "NextResponse_json b = \<lparr>status = 200, body = b\<rparr>"

text \<open>A JSON value as far as truthiness, \<^verbatim>\<open>typeof\<close> and \<^verbatim>\<open>===\<close> on strings look at it.\<close>

datatype jsval = JUndefined | JNull | JBool bool | JNum real | JStr string | JObject

fun truthy :: "jsval \<Rightarrow> bool" where
  "truthy JUndefined = False"
| "truthy JNull = False"
| "truthy (JBool b) = b"
| "truthy (JNum n) = (n \<noteq> 0)"
| "truthy (JStr s) = (s \<noteq> [])"
| "truthy JObject = True"

fun typeof :: "jsval \<Rightarrow> string" where
  "typeof JUndefined = ''undefined''"
| "typeof JNull = ''object''"
| "typeof (JBool b) = ''boolean''"
| "typeof (JNum n) = ''number''"
| "typeof (JStr s) = ''string''"
| "typeof JObject = ''object''"

fun str_of :: "jsval \<Rightarrow> string" where
  "str_of (JStr s) = s"
| "str_of _ = []"

text \<open>Truthiness of a value that is a string or \<^verbatim>\<open>null\<close>/\<^verbatim>\<open>undefined\<close>.\<close>

fun truthy_str :: "string option \<Rightarrow> bool" where
  "truthy_str None = False"
| "truthy_str (Some t) = (t \<noteq> [])"

section \<open>The emergency list\<close>

text \<open>The list of the vector-search handler.\<close>

definition EMERGENCY_LIST :: "restaurant list" where
  "EMERGENCY_LIST =
    [\<lparr>id_r = ''e1'', name = ''McDonald's'', cuisine = ''Fast Food'', price_level = 1,
      rating = 3.5, address = ''Everywhere'', vibe_short = ''Reliable & Fast'',
      must_order_dish = ''Big Mac'', coordinates_r = (0, 0), raw_price_level = None\<rparr>,
     \<lparr>id_r = ''e2'', name = ''Starbucks'', cuisine = ''Coffee'', price_level = 2,
      rating = 4.0, address = ''On the corner'', vibe_short = ''Caffeinated'',
      must_order_dish = ''Caramel Macchiato'', coordinates_r = (0, 0), raw_price_level = None\<rparr>,
     \<lparr>id_r = ''e3'', name = ''Taco Bell'', cuisine = ''Fast Food'', price_level = 1,
      rating = 4.5, address = ''Late Night Spot'',
      vibe_short = ''Live M'' @ [CHR 0xC3, CHR 0xA1] @ ''s'',
      must_order_dish = ''Crunchwrap Supreme'', coordinates_r = (0, 0), raw_price_level = None\<rparr>,
     \<lparr>id_r = ''e4'', name = ''Domino's Pizza'', cuisine = ''Pizza'', price_level = 1,
      rating = 3.8, address = ''Delivery'', vibe_short = ''Pizza Night'',
      must_order_dish = ''Pepperoni Pizza'', coordinates_r = (0, 0), raw_price_level = None\<rparr>,
     \<lparr>id_r = ''e5'', name = ''Subway'', cuisine = ''Sandwiches'', price_level = 1,
      rating = 3.7, address = ''Eat Fresh'', vibe_short = ''Custom Subs'',
      must_order_dish = ''Italian B.M.T.'', coordinates_r = (0, 0), raw_price_level = None\<rparr>]"

text \<open>
  The places-search handler has its own copy of the list; its third entry's
  \<^verbatim>\<open>vibe_short\<close> is stored with other bytes in that file.
\<close>

definition EMERGENCY_LIST_places :: "restaurant list" where
  "EMERGENCY_LIST_places =
    [\<lparr>id_r = ''e1'', name = ''McDonald's'', cuisine = ''Fast Food'', price_level = 1,
      rating = 3.5, address = ''Everywhere'', vibe_short = ''Reliable & Fast'',
      must_order_dish = ''Big Mac'', coordinates_r = (0, 0), raw_price_level = None\<rparr>,
     \<lparr>id_r = ''e2'', name = ''Starbucks'', cuisine = ''Coffee'', price_level = 2,
      rating = 4.0, address = ''On the corner'', vibe_short = ''Caffeinated'',
      must_order_dish = ''Caramel Macchiato'', coordinates_r = (0, 0), raw_price_level = None\<rparr>,
     \<lparr>id_r = ''e3'', name = ''Taco Bell'', cuisine = ''Fast Food'', price_level = 1,
      rating = 4.5, address = ''Late Night Spot'',
      vibe_short = ''Live M'' @ [CHR 0xC3, CHR 0x83, CHR 0xC2, CHR 0xA1] @ ''s'',
      must_order_dish = ''Crunchwrap Supreme'', coordinates_r = (0, 0), raw_price_level = None\<rparr>,
     \<lparr>id_r = ''e4'', name = ''Domino's Pizza'', cuisine = ''Pizza'', price_level = 1,
      rating = 3.8, address = ''Delivery'', vibe_short = ''Pizza Night'',
      must_order_dish = ''Pepperoni Pizza'', coordinates_r = (0, 0), raw_price_level = None\<rparr>,
     \<lparr>id_r = ''e5'', name = ''Subway'', cuisine = ''Sandwiches'', price_level = 1,
      rating = 3.7, address = ''Eat Fresh'', vibe_short = ''Custom Subs'',
      must_order_dish = ''Italian B.M.T.'', coordinates_r = (0, 0), raw_price_level = None\<rparr>]"

section \<open>The vector-search handler\<close>

text \<open>
  The parsed request body. \<open>None\<close> for the whole body stands for
  \<^verbatim>\<open>await req.json()\<close> throwing or yielding a value that cannot be destructured.
\<close>

record vs_request =
  vibe_v :: jsval
  price_preference :: jsval

record embed_args =
  model :: string
  input :: string

record rpc_args =
  query_embedding :: "real list"
  match_threshold :: real
  match_count :: nat
  min_price :: "nat option"
  max_price :: "nat option"

text \<open>
  What \<^verbatim>\<open>supabase.rpc\<close> resolves to: \<^verbatim>\<open>data\<close> is \<^verbatim>\<open>null\<close> or the array of rows
  of \<^verbatim>\<open>match_places\<close>, \<^verbatim>\<open>error\<close> is \<^verbatim>\<open>null\<close> or an error object.
\<close>

record rpc_result =
  data :: "restaurant list option"
  error :: "string option"

text \<open>
  The collaborators are parameters. \<open>None\<close> from either stands for a rejected promise
  (an exception inside the \<^verbatim>\<open>try\<close>). The embeddings call resolves to its \<^verbatim>\<open>data\<close>
  field: absent, or a list of items whose \<^verbatim>\<open>embedding\<close> may be absent.
\<close>

type_synonym embeddings_client = "embed_args \<Rightarrow> real list option list option option"
type_synonym rpc_client = "rpc_args \<Rightarrow> rpc_result option"

text \<open>\<^verbatim>\<open>embeddingData?.[0]?.embedding\<close>\<close>

fun first_embedding :: "real list option list option \<Rightarrow> real list option" where
  "first_embedding None = None"
| "first_embedding (Some []) = None"
| "first_embedding (Some (x # xs)) = x"

text \<open>The \<^verbatim>\<open>if\<close>/\<^verbatim>\<open>else if\<close> chain that sets \<^verbatim>\<open>min_price\<close> and \<^verbatim>\<open>max_price\<close>.\<close>

definition price_range :: "jsval \<Rightarrow> nat option \<times> nat option" where
  "price_range p =
    (if p = JStr ''low'' then (Some 0, Some 1)
     else if p = JStr ''medium'' then (Some 2, Some 2)
     else if p = JStr ''high'' then (Some 3, Some 4)
     else (None, None))"

text \<open>The arguments of the two calls.\<close>

definition embed_args_of :: "vs_request \<Rightarrow> embed_args" where
  "embed_args_of q = \<lparr>model = ''openai/text-embedding-3-small'', input = str_of (vibe_v q)\<rparr>"

definition rpc_args_of :: "vs_request \<Rightarrow> real list \<Rightarrow> rpc_args" where
  "rpc_args_of q qe =
    \<lparr>query_embedding = qe, match_threshold = 0.5, match_count = 5,
     min_price = fst (price_range (price_preference q)),
     max_price = snd (price_range (price_preference q))\<rparr>"

text \<open>
  The handler. Each \<open>None\<close> of a collaborator is an exception and lands in the
  \<^verbatim>\<open>catch\<close> block, which answers with the emergency list as well.
\<close>

definition POST_vector ::
  "vs_request option \<Rightarrow> embeddings_client \<Rightarrow> rpc_client \<Rightarrow> http_response" where
  "POST_vector parsed embeddings_create rpc =
    (case parsed of
       None \<Rightarrow> NextResponse_json (JArray EMERGENCY_LIST)
     | Some q \<Rightarrow>
        if \<not> truthy (vibe_v q) \<or> typeof (vibe_v q) \<noteq> ''string''
        then NextResponse_json (JArray EMERGENCY_LIST)
        else
          (case embeddings_create (embed_args_of q) of
             None \<Rightarrow> NextResponse_json (JArray EMERGENCY_LIST)
           | Some embeddingData \<Rightarrow>
              (case first_embedding embeddingData of
                 None \<Rightarrow> NextResponse_json (JArray EMERGENCY_LIST)
               | Some qe \<Rightarrow>
                  (case rpc (rpc_args_of q qe) of
                     None \<Rightarrow> NextResponse_json (JArray EMERGENCY_LIST)
                   | Some r \<Rightarrow>
                      if error r \<noteq> None then NextResponse_json (JArray EMERGENCY_LIST)
                      else if data r = None \<or> data r = Some []
                      then NextResponse_json (JArray EMERGENCY_LIST)
                      else NextResponse_json (JArray (the (data r)))))))"

section \<open>The places-search handler\<close>

text \<open>
  The parsed request body \<^verbatim>\<open>{location, vibe, budget, transport, lat, lng, pageToken}\<close>;
  it is also what the page component posts. The fields that clash with the page state
  carry the suffix \<open>_q\<close>. An absent or \<^verbatim>\<open>null\<close> field is \<open>None\<close>.
\<close>

record places_request =
  location_q :: string
  vibe_q :: string
  budget_q :: string
  transport_q :: string
  lat :: "real option"
  lng :: "real option"
  pageToken :: "string option"

text \<open>One entry of \<^verbatim>\<open>data.places\<close>, with the fields the handler reads.\<close>

record place =
  id_p :: string
  displayName_text :: "string option"
  primaryType :: "string option"
  types :: "string list option"
  priceLevel :: "string option"
  rating_p :: "real option"
  formattedAddress :: "string option"
  latitude :: "real option"
  longitude :: "real option"

record upstream_response =
  places :: "place list option"
  nextPageToken_u :: "string option"

record upstream_request =
  apiUrl :: string
  api_key :: string
  fieldMask :: string
  textQuery :: string
  priceLevels_u :: "string list option"
  locationRestriction :: "(real \<times> real \<times> nat) option"
  maxResultCount :: nat
  pageToken_u :: "string option"

text \<open>\<open>None\<close>: \<^verbatim>\<open>fetch\<close> or \<^verbatim>\<open>res.json()\<close> threw, or the JSON was \<^verbatim>\<open>null\<close>.\<close>

type_synonym upstream = "upstream_request \<Rightarrow> upstream_response option"

definition radius_of :: "string \<Rightarrow> nat" where
  "radius_of transport = (if transport = ''driving'' then 11265 else 3218)"

definition priceLevels_of :: "string \<Rightarrow> string list" where
  "priceLevels_of budget =
    (if budget = ''low'' then [''PRICE_LEVEL_FREE'', ''PRICE_LEVEL_INEXPENSIVE'']
     else if budget = ''medium'' then [''PRICE_LEVEL_MODERATE'']
     else if budget = ''high'' then [''PRICE_LEVEL_EXPENSIVE'', ''PRICE_LEVEL_VERY_EXPENSIVE'']
     else [])"

text \<open>The \<^verbatim>\<open>switch\<close> on \<^verbatim>\<open>place.priceLevel\<close>.\<close>

definition priceNum :: "string option \<Rightarrow> nat" where
  "priceNum l =
    (if l = Some ''PRICE_LEVEL_FREE'' then 0
     else if l = Some ''PRICE_LEVEL_INEXPENSIVE'' then 1
     else if l = Some ''PRICE_LEVEL_MODERATE'' then 2
     else if l = Some ''PRICE_LEVEL_EXPENSIVE'' then 3
     else if l = Some ''PRICE_LEVEL_VERY_EXPENSIVE'' then 4
     else 1)"

definition ignoredTypes :: "string list" where
  "ignoredTypes = [''restaurant'', ''food'', ''point_of_interest'', ''establishment'']"

text \<open>\<^verbatim>\<open>a || b\<close> on strings that may be absent, with a string literal as the last resort.\<close>

definition or_str :: "string option \<Rightarrow> string option \<Rightarrow> string option" where
  "or_str a b = (if truthy_str a then a else b)"

definition or_default :: "string option \<Rightarrow> string \<Rightarrow> string" where
  "or_default a d = (if truthy_str a then the a else d)"

definition raw_cuisine :: "place \<Rightarrow> string" where
  "raw_cuisine p =
    or_default
      (or_str (case types p of None \<Rightarrow> None
               | Some ts \<Rightarrow> find (\<lambda>t. t \<notin> set ignoredTypes) ts)
              (primaryType p))
      ''Food''"

text \<open>\<^verbatim>\<open>.replace(/_restaurant$/, "")\<close>\<close>

definition strip_restaurant :: "string \<Rightarrow> string" where
  "strip_restaurant s =
    (let n = length s - length ''_restaurant''
     in if length ''_restaurant'' \<le> length s \<and> drop n s = ''_restaurant'' then take n s else s)"

text \<open>\<^verbatim>\<open>.split('_')\<close>: the empty string gives one empty word.\<close>

fun split_underscore :: "string \<Rightarrow> string list" where
  "split_underscore [] = [[]]"
| "split_underscore (c # cs) =
    (if c = CHR ''_'' then [] # split_underscore cs
     else (case split_underscore cs of
             [] \<Rightarrow> [[c]]
           | w # ws \<Rightarrow> (c # w) # ws))"

text \<open>\<^verbatim>\<open>toUpperCase\<close> on one character, for the ASCII letters that place types are made of.\<close>

definition toUpperCase :: "char \<Rightarrow> char" where
  "toUpperCase c =
    (if (97::nat) \<le> of_char c \<and> of_char c \<le> (122::nat)
     then char_of (of_char c - (32::nat)) else c)"

text \<open>\<^verbatim>\<open>word.charAt(0).toUpperCase() + word.slice(1)\<close>\<close>

fun capitalize :: "string \<Rightarrow> string" where
  "capitalize [] = []"
| "capitalize (c # cs) = toUpperCase c # cs"

text \<open>\<^verbatim>\<open>.join(' ')\<close>\<close>

fun join_space :: "string list \<Rightarrow> string" where
  "join_space [] = []"
| "join_space [w] = w"
| "join_space (w # ws) = w @ '' '' @ join_space ws"

definition formattedCuisine :: "place \<Rightarrow> string" where
  "formattedCuisine p =
    join_space (map capitalize (split_underscore (strip_restaurant (raw_cuisine p))))"

text \<open>The object built for each place; \<open>vibe\<close> is the request's vibe.\<close>

definition transform :: "string \<Rightarrow> place \<Rightarrow> restaurant" where
  "transform vibe p =
    \<lparr>id_r = id_p p,
     name = or_default (displayName_text p) ''Unknown Spot'',
     cuisine = formattedCuisine p,
     price_level = priceNum (priceLevel p),
     rating = (case rating_p p of None \<Rightarrow> 0 | Some x \<Rightarrow> x),
     address = or_default (formattedAddress p) ''Address unavailable'',
     vibe_short = vibe,
     must_order_dish = ''Check the menu!'',
     coordinates_r = (case latitude p of None \<Rightarrow> 0 | Some x \<Rightarrow> x,
                      case longitude p of None \<Rightarrow> 0 | Some x \<Rightarrow> x),
     raw_price_level = priceLevel p\<rparr>"

text \<open>The strict post-filter on \<^verbatim>\<open>raw_price_level\<close>.\<close>

definition post_filter :: "string list \<Rightarrow> restaurant \<Rightarrow> bool" where
  "post_filter priceLevels r =
    (if priceLevels = [] then True
     else (case raw_price_level r of None \<Rightarrow> False | Some l \<Rightarrow> l \<in> set priceLevels))"

definition truthy_num :: "real option \<Rightarrow> bool" where
  "truthy_num x = (case x of None \<Rightarrow> False | Some v \<Rightarrow> v \<noteq> 0)"

definition requestBody :: "string \<Rightarrow> places_request \<Rightarrow> upstream_request" where
  "requestBody key q =
    (let priceLevels = priceLevels_of (budget_q q) in
     if truthy_num (lat q) \<and> truthy_num (lng q)
     then \<lparr>apiUrl = ''https://places.googleapis.com/v1/places:searchText'',
           api_key = key,
           fieldMask = ''places.id,places.displayName,places.primaryType,places.types,places.priceLevel,places.rating,places.formattedAddress,places.location'',
           textQuery = vibe_q q @ '' restaurants'',
           priceLevels_u = (if priceLevels \<noteq> [] then Some priceLevels else None),
           locationRestriction = Some (the (lat q), the (lng q), radius_of (transport_q q)),
           maxResultCount = 20,
           pageToken_u = pageToken q\<rparr>
     else \<lparr>apiUrl = ''https://places.googleapis.com/v1/places:searchText'',
           api_key = key,
           fieldMask = ''places.id,places.displayName,places.primaryType,places.types,places.priceLevel,places.rating,places.formattedAddress,places.location'',
           textQuery = vibe_q q @ '' restaurants in '' @ location_q q,
           priceLevels_u = (if priceLevels \<noteq> [] then Some priceLevels else None),
           locationRestriction = None,
           maxResultCount = 20,
           pageToken_u = pageToken q\<rparr>)"

text \<open>
  The handler. \<open>GOOGLE_MAPS_API_KEY\<close> is the environment variable (\<open>None\<close> when unset),
  \<open>parsed\<close> the request body (\<open>None\<close> when \<^verbatim>\<open>req.json()\<close> throws), and \<open>fetch_u\<close>
  the upstream call. Every \<open>None\<close> of a collaborator lands in the \<^verbatim>\<open>catch\<close> block.
\<close>

definition POST_places ::
  "string option \<Rightarrow> places_request option \<Rightarrow> upstream \<Rightarrow> http_response" where
  "POST_places GOOGLE_MAPS_API_KEY parsed fetch_u =
    (case parsed of
       None \<Rightarrow> NextResponse_json (JPage EMERGENCY_LIST_places None)
     | Some q \<Rightarrow>
        if \<not> truthy_str GOOGLE_MAPS_API_KEY then NextResponse_json (JArray EMERGENCY_LIST_places)
        else
          (case fetch_u (requestBody (the GOOGLE_MAPS_API_KEY) q) of
             None \<Rightarrow> NextResponse_json (JPage EMERGENCY_LIST_places None)
           | Some d \<Rightarrow>
              if places d = None \<or> places d = Some []
              then (if truthy_str (pageToken q) then NextResponse_json (JPage [] None)
                    else NextResponse_json (JPage EMERGENCY_LIST_places None))
              else NextResponse_json
                     (JPage (filter (post_filter (priceLevels_of (budget_q q)))
                               (map (transform (vibe_q q)) (the (places d))))
                            (if truthy_str (nextPageToken_u d) then nextPageToken_u d else None))))"

section \<open>The page component\<close>

text \<open>
  The state variables of \<^verbatim>\<open>Home\<close> that the handlers read or write. The two texts that
  are only displayed (\<^verbatim>\<open>loadingText\<close>, \<^verbatim>\<open>currentSpinName\<close>) are left out.
  \<^verbatim>\<open>skippedCuisines\<close> is a \<^verbatim>\<open>Record<string, number>\<close>: a map from cuisine to count.
\<close>

record home_state =
  location :: string
  coordinates :: "(real \<times> real) option"
  vibe :: string
  budget :: string
  transport :: string
  loading :: bool
  spinning :: bool
  restaurants :: "restaurant list"
  winner :: "restaurant option"
  skippedCuisines :: "string \<rightharpoonup> nat"
  nextPageToken :: "string option"
  seenIds :: "string set"

text \<open>The arguments of the \<^verbatim>\<open>useState\<close> calls.\<close>

definition initial_state :: home_state where
  "initial_state =
    \<lparr>location = [], coordinates = None, vibe = [], budget = ''medium'',
     transport = ''driving'', loading = False, spinning = False, restaurants = [],
     winner = None, skippedCuisines = Map.empty, nextPageToken = None, seenIds = {}\<rparr>"

text \<open>
  What a handler does besides updating the state, in order: the \<^verbatim>\<open>alert\<close> it raises
  (one constructor per message of the source), the request it posts to
  \<^verbatim>\<open>/api/restaurants\<close>, and the call of \<^verbatim>\<open>startSpinning\<close> with the list and the
  pre-selected winner.
\<close>

datatype alert =
  PleaseEnterLocation    \<comment> \<open>\<^verbatim>\<open>Please enter a location first!\<close>\<close>
| WhatsTheVibe           \<comment> \<open>\<^verbatim>\<open>What's the vibe tonight?\<close>\<close>
| NoMatchingSpots        \<comment> \<open>\<^verbatim>\<open>No matching spots in this batch. Spin again to search deeper!\<close>\<close>
| NoRestaurantsFound     \<comment> \<open>\<^verbatim>\<open>No restaurants found matching your criteria.\<close>\<close>
| SeenEverything         \<comment> \<open>\<^verbatim>\<open>You've seen everything!\<close>\<close>
| SomethingWentWrong     \<comment> \<open>\<^verbatim>\<open>Something went wrong. Try again!\<close>\<close>
| SeenAllSpots           \<comment> \<open>\<^verbatim>\<open>You've seen all the spots in this area! Try changing filters.\<close>\<close>

datatype effect =
  Alert alert
| Fetch places_request
| StartSpinning "restaurant list" restaurant

text \<open>
  The endpoint as the page sees it: the parsed JSON of the response, or \<open>None\<close> when
  \<^verbatim>\<open>fetch\<close> or \<^verbatim>\<open>res.json()\<close> throws.
\<close>

type_synonym adapter = "places_request \<Rightarrow> json_body option"

text \<open>
  \<^verbatim>\<open>xs[Math.floor(Math.random() * xs.length)]\<close> for a non-empty \<open>xs\<close>: the random
  source is a natural number \<open>rnd\<close>, and every index below the length is reached by some
  \<open>rnd\<close>.
\<close>

definition pick :: "'a list \<Rightarrow> nat \<Rightarrow> 'a" where
  "pick xs rnd = xs ! (rnd mod length xs)"

text \<open>\<^verbatim>\<open>skippedCuisines[c] || 0\<close>\<close>

definition skipCount :: "(string \<rightharpoonup> nat) \<Rightarrow> string \<Rightarrow> nat" where
  "skipCount m c = (case m c of None \<Rightarrow> 0 | Some n \<Rightarrow> n)"

text \<open>
  \<^verbatim>\<open>startSpinning\<close> cycles names for 2.5 seconds and then sets the pre-selected winner;
  no handler can be started meanwhile (the spin button is disabled, the skip button is
  not shown). The model gives the state once the last tick has run.
\<close>

definition startSpinning :: "restaurant list \<Rightarrow> restaurant \<Rightarrow> home_state \<Rightarrow> home_state" where
  "startSpinning list preSelectedWinner s = s\<lparr>spinning := False, winner := Some preSelectedWinner\<rparr>"

definition spin_request :: "home_state \<Rightarrow> places_request" where
  "spin_request s =
    \<lparr>location_q = location s, vibe_q = vibe s, budget_q = budget s,
     transport_q = transport s, lat = map_option fst (coordinates s),
     lng = map_option snd (coordinates s), pageToken = nextPageToken s\<rparr>"

text \<open>
  The local lists of \<^verbatim>\<open>handleSpin\<close>, each a function of the state the handler
  closes over and, after the fetch, of the array \<open>rs\<close> that arrived as
  \<^verbatim>\<open>data.restaurants\<close>.
\<close>

definition unseen :: "home_state \<Rightarrow> restaurant list" where
  "unseen s = filter (\<lambda>r. id_r r \<notin> seenIds s) (restaurants s)"

definition newRestaurants :: "home_state \<Rightarrow> restaurant list \<Rightarrow> restaurant list" where
  "newRestaurants s rs = filter (\<lambda>r. skipCount (skippedCuisines s) (cuisine r) < 2) rs"

definition uniqueNew :: "home_state \<Rightarrow> restaurant list \<Rightarrow> restaurant list" where
  "uniqueNew s rs =
    filter (\<lambda>r. \<not> list_ex (\<lambda>existing. id_r existing = id_r r) (restaurants s))
      (newRestaurants s rs)"

definition updatedList :: "home_state \<Rightarrow> restaurant list \<Rightarrow> restaurant list" where
  "updatedList s rs = restaurants s @ uniqueNew s rs"

definition available :: "home_state \<Rightarrow> restaurant list \<Rightarrow> restaurant list" where
  "available s rs =
    (if uniqueNew s rs \<noteq> [] then uniqueNew s rs
     else filter (\<lambda>r. id_r r \<notin> seenIds s) (updatedList s rs))"

text \<open>
  \<^verbatim>\<open>handleSpin\<close> from the point where \<^verbatim>\<open>data\<close> has arrived as an object with the
  array \<open>rs\<close> as \<^verbatim>\<open>data.restaurants\<close> and \<open>tok\<close> as \<^verbatim>\<open>data.nextPageToken\<close>.
  \<open>s0\<close> is the state with \<^verbatim>\<open>loading\<close> and \<^verbatim>\<open>winner\<close> already cleared; its
  pool, seen ids and skip counters are those the handler closed over.
\<close>

definition handleSpin_data ::
  "places_request \<Rightarrow> restaurant list \<Rightarrow> string option \<Rightarrow> nat \<Rightarrow> home_state
    \<Rightarrow> home_state \<times> effect list" where
  "handleSpin_data req rs tok rnd s0 =
    (if newRestaurants s0 rs = [] then
       (if truthy_str tok
        then (s0\<lparr>nextPageToken := tok\<rparr>, [Fetch req, Alert NoMatchingSpots])
        else (s0, [Fetch req, Alert NoRestaurantsFound]))
     else if uniqueNew s0 rs = [] \<and> \<not> truthy_str tok
     then (s0, [Fetch req, Alert SeenEverything])
     else
       (let s1 = s0\<lparr>restaurants := updatedList s0 rs, nextPageToken := tok\<rparr> in
        if available s0 rs = [] then (s1, [Fetch req, Alert SeenEverything])
        else
          (let random = pick (available s0 rs) rnd in
           (startSpinning (updatedList s0 rs) random
              (s1\<lparr>seenIds := insert (id_r random) (seenIds s0)\<rparr>),
            [Fetch req, StartSpinning (updatedList s0 rs) random]))))"

definition handleSpin :: "adapter \<Rightarrow> nat \<Rightarrow> home_state \<Rightarrow> home_state \<times> effect list" where
  "handleSpin fetch_api rnd s =
    (if location s = [] \<and> coordinates s = None then (s, [Alert PleaseEnterLocation])
     else if vibe s = [] then (s, [Alert WhatsTheVibe])
     else
       (let s0 = s\<lparr>loading := False, winner := None\<rparr> in
        if unseen s \<noteq> [] then
          (let random = pick (unseen s) rnd in
           (startSpinning (restaurants s) random
              (s0\<lparr>seenIds := insert (id_r random) (seenIds s)\<rparr>),
            [StartSpinning (restaurants s) random]))
        else if restaurants s = [] \<or> truthy_str (nextPageToken s) then
          (case fetch_api (spin_request s) of
             None \<Rightarrow> (s0, [Fetch (spin_request s), Alert SomethingWentWrong])
           | Some (JArray xs) \<Rightarrow> (s0, [Fetch (spin_request s), Alert SomethingWentWrong])
           | Some (JPage rs tok) \<Rightarrow> handleSpin_data (spin_request s) rs tok rnd s0)
        else (s0, [Alert SeenAllSpots])))"

text \<open>The local values of \<^verbatim>\<open>handleSkip\<close>, for the winner \<open>w\<close> on display.\<close>

definition updatedSkipped :: "home_state \<Rightarrow> restaurant \<Rightarrow> (string \<rightharpoonup> nat)" where
  "updatedSkipped s w =
    (skippedCuisines s)(cuisine w \<mapsto> skipCount (skippedCuisines s) (cuisine w) + 1)"

definition availableRestaurants :: "home_state \<Rightarrow> restaurant \<Rightarrow> restaurant list" where
  "availableRestaurants s w =
    filter (\<lambda>r. skipCount (updatedSkipped s w) (cuisine r) < 2 \<and> id_r r \<noteq> id_r w
                 \<and> id_r r \<notin> seenIds s) (restaurants s)"

text \<open>
  \<^verbatim>\<open>handleSkip\<close>. The counter update is a functional \<^verbatim>\<open>setState\<close>; the filter uses
  the local \<^verbatim>\<open>updatedSkipped\<close>. When nothing is left it calls \<^verbatim>\<open>handleSpin()\<close> of
  the same render, which still reads the \<^verbatim>\<open>skippedCuisines\<close> of that render (the
  value before the increment) and never writes it; the increment is applied to its result.
\<close>

definition handleSkip :: "adapter \<Rightarrow> nat \<Rightarrow> home_state \<Rightarrow> home_state \<times> effect list" where
  "handleSkip fetch_api rnd s =
    (case winner s of
       None \<Rightarrow> (s, [])
     | Some w \<Rightarrow>
        if availableRestaurants s w = [] then
          (fst (handleSpin fetch_api rnd s)\<lparr>skippedCuisines := updatedSkipped s w\<rparr>,
           snd (handleSpin fetch_api rnd s))
        else
          (let random = pick (availableRestaurants s w) rnd in
           (startSpinning (restaurants s) random
              (s\<lparr>skippedCuisines := updatedSkipped s w,
                 seenIds := insert (id_r random) (seenIds s), winner := None\<rparr>),
            [StartSpinning (restaurants s) random])))"

text \<open>
  The effect \<^verbatim>\<open>useEffect(..., [location, vibe, budget, transport])\<close>: after a render in
  which one of the four dependencies differs from the previous render, its body runs.
\<close>

definition deps :: "home_state \<Rightarrow> string \<times> string \<times> string \<times> string" where
  "deps s = (location s, vibe s, budget s, transport s)"

definition reset_effect :: "home_state \<Rightarrow> home_state" where
  "reset_effect s = s\<lparr>restaurants := [], seenIds := {}, nextPageToken := None, winner := None\<rparr>"

definition rerender :: "home_state \<Rightarrow> home_state \<Rightarrow> home_state" where
  "rerender old new = (if deps new \<noteq> deps old then reset_effect new else new)"

definition setLocation :: "string \<Rightarrow> home_state \<Rightarrow> home_state" where
  "setLocation v s = rerender s (s\<lparr>location := v\<rparr>)"

definition setVibe :: "string \<Rightarrow> home_state \<Rightarrow> home_state" where
  "setVibe v s = rerender s (s\<lparr>vibe := v\<rparr>)"

definition setBudget :: "string \<Rightarrow> home_state \<Rightarrow> home_state" where
  "setBudget v s = rerender s (s\<lparr>budget := v\<rparr>)"

definition setTransport :: "string \<Rightarrow> home_state \<Rightarrow> home_state" where
  "setTransport v s = rerender s (s\<lparr>transport := v\<rparr>)"

definition setCoordinates :: "(real \<times> real) option \<Rightarrow> home_state \<Rightarrow> home_state" where
  "setCoordinates v s = rerender s (s\<lparr>coordinates := v\<rparr>)"

text \<open>
  What the user can do: the two buttons with their handlers, "Start Over", the inputs.
  One handler runs to its end before the next event. Whether a button is enabled or
  shown is not tracked, so the runs of the model include those of the page.
\<close>

datatype event =
  Spin adapter nat
| Skip adapter nat
| StartOver
| SetLocation string
| SetVibe string
| SetBudget string
| SetTransport string
| SetCoordinates "(real \<times> real) option"

fun step :: "event \<Rightarrow> home_state \<Rightarrow> home_state \<times> effect list" where
  "step (Spin a rnd) s = handleSpin a rnd s"
| "step (Skip a rnd) s = handleSkip a rnd s"
| "step StartOver s = (s\<lparr>winner := None\<rparr>, [])"
| "step (SetLocation v) s = (setLocation v s, [])"
| "step (SetVibe v) s = (setVibe v s, [])"
| "step (SetBudget v) s = (setBudget v s, [])"
| "step (SetTransport v) s = (setTransport v s, [])"
| "step (SetCoordinates v) s = (setCoordinates v s, [])"

fun run :: "event list \<Rightarrow> home_state \<Rightarrow> home_state" where
  "run [] s = s"
| "run (e # es) s = run es (fst (step e s))"

text \<open>The events that leave the four filter inputs alone.\<close>

fun keeps_filters :: "event \<Rightarrow> bool" where
  "keeps_filters (Spin a rnd) = True"
| "keeps_filters (Skip a rnd) = True"
| "keeps_filters StartOver = True"
| "keeps_filters (SetCoordinates v) = True"
| "keeps_filters _ = False"

section \<open>Notions used in the statements\<close>

fun is_Fetch :: "effect \<Rightarrow> bool" where
  "is_Fetch (Fetch q) = True"
| "is_Fetch _ = False"

text \<open>The ids of the pool.\<close>

definition pool_ids :: "home_state \<Rightarrow> string set" where
  "pool_ids s = id_r ` set (restaurants s)"

text \<open>An endpoint none of whose pages repeats an id within the page.\<close>

definition distinct_pages :: "adapter \<Rightarrow> bool" where
  "distinct_pages a = (\<forall>q rs tok. a q = Some (JPage rs tok) \<longrightarrow> distinct (map id_r rs))"

fun distinct_batches :: "event \<Rightarrow> bool" where
  "distinct_batches (Spin a rnd) = distinct_pages a"
| "distinct_batches (Skip a rnd) = distinct_pages a"
| "distinct_batches _ = True"

section \<open>Sample data\<close>

definition sample :: "string \<Rightarrow> string \<Rightarrow> restaurant" where
  "sample i c =
    \<lparr>id_r = i, name = i, cuisine = c, price_level = 2, rating = 4, address = ''Rue 1'',
     vibe_short = ''cozy'', must_order_dish = ''Check the menu!'', coordinates_r = (0, 0),
     raw_price_level = Some ''PRICE_LEVEL_MODERATE''\<rparr>"

text \<open>An endpoint that always answers with the same page.\<close>

definition page_of :: "restaurant list \<Rightarrow> string option \<Rightarrow> adapter" where
  "page_of rs tok = (\<lambda>q. Some (JPage rs tok))"

definition thai_page :: adapter where
  "thai_page =
    page_of [sample ''t1'' ''Thai'', sample ''t2'' ''Thai'', sample ''t3'' ''Thai'',
             sample ''t4'' ''Thai''] None"

definition sample_place :: "string \<Rightarrow> string option \<Rightarrow> place" where
  "sample_place i l =
    \<lparr>id_p = i, displayName_text = Some i, primaryType = Some ''thai_restaurant'',
     types = Some [''thai_restaurant'', ''restaurant'', ''food''], priceLevel = l,
     rating_p = Some 4, formattedAddress = None, latitude = None, longitude = None\<rparr>"

definition sample_query :: "string \<Rightarrow> string option \<Rightarrow> places_request" where
  "sample_query b tok =
    \<lparr>location_q = ''Paris'', vibe_q = ''cozy'', budget_q = b, transport_q = ''walking'',
     lat = None, lng = None, pageToken = tok\<rparr>"

section \<open>Facts about the vector-search handler\<close>

lemma EMERGENCY_LIST_length: "length EMERGENCY_LIST = 5"
  by (simp add: EMERGENCY_LIST_def)

lemma EMERGENCY_LIST_nonempty: "EMERGENCY_LIST \<noteq> []"
  by (simp add: EMERGENCY_LIST_def)

text \<open>
  Claim C8. Whatever the request and the collaborators do, the vector-search handler
  answers with status 200. It answers with the hardcoded five-entry emergency list when
  the body cannot be read, when \<^verbatim>\<open>vibe\<close> is missing, empty or not a string, when the
  embeddings call throws or yields no embedding, when the RPC throws, reports an error,
  or yields no rows.
\<close>

theorem vector_fallback_200:
  "status (POST_vector parsed emb rpc) = 200 \<and>
   length EMERGENCY_LIST = 5 \<and>
   (parsed = None \<longrightarrow> body (POST_vector parsed emb rpc) = JArray EMERGENCY_LIST) \<and>
   (\<forall>q. parsed = Some q \<longrightarrow>
      ((\<not> truthy (vibe_v q) \<or> typeof (vibe_v q) \<noteq> ''string'') \<longrightarrow>
          body (POST_vector parsed emb rpc) = JArray EMERGENCY_LIST) \<and>
      (emb (embed_args_of q) = None \<longrightarrow>
          body (POST_vector parsed emb rpc) = JArray EMERGENCY_LIST) \<and>
      (\<forall>d. emb (embed_args_of q) = Some d \<longrightarrow>
         (first_embedding d = None \<longrightarrow>
            body (POST_vector parsed emb rpc) = JArray EMERGENCY_LIST) \<and>
         (\<forall>qe. first_embedding d = Some qe \<longrightarrow>
            (rpc (rpc_args_of q qe) = None \<longrightarrow>
               body (POST_vector parsed emb rpc) = JArray EMERGENCY_LIST) \<and>
            (\<forall>r. rpc (rpc_args_of q qe) = Some r \<longrightarrow>
               (error r \<noteq> None \<longrightarrow>
                  body (POST_vector parsed emb rpc) = JArray EMERGENCY_LIST) \<and>
               (data r = None \<or> data r = Some [] \<longrightarrow>
                  body (POST_vector parsed emb rpc) = JArray EMERGENCY_LIST)))))"
  by (auto simp: POST_vector_def NextResponse_json_def EMERGENCY_LIST_length split: option.splits)

text \<open>
  The theorem at four requests: a numeric vibe; an embeddings call that throws; an RPC
  that reports an error; an RPC that yields no rows.
\<close>

theorem vector_fallback_200_witness:
  "body (POST_vector (Some \<lparr>vibe_v = JNum 7, price_preference = JStr ''low''\<rparr>)
           (\<lambda>a. Some (Some [Some [1]])) (\<lambda>a. Some \<lparr>data = Some [], error = None\<rparr>))
     = JArray EMERGENCY_LIST \<and>
   body (POST_vector (Some \<lparr>vibe_v = JStr ''cozy'', price_preference = JStr ''low''\<rparr>)
           (\<lambda>a. None) (\<lambda>a. Some \<lparr>data = Some [], error = None\<rparr>))
     = JArray EMERGENCY_LIST \<and>
   body (POST_vector (Some \<lparr>vibe_v = JStr ''cozy'', price_preference = JStr ''low''\<rparr>)
           (\<lambda>a. Some (Some [Some [1]]))
           (\<lambda>a. Some \<lparr>data = Some (take 1 EMERGENCY_LIST), error = Some ''timeout''\<rparr>))
     = JArray EMERGENCY_LIST \<and>
   status (POST_vector (Some \<lparr>vibe_v = JStr ''cozy'', price_preference = JStr ''low''\<rparr>)
           (\<lambda>a. Some (Some [Some [1]])) (\<lambda>a. Some \<lparr>data = Some [], error = None\<rparr>))
     = 200 \<and>
   body (POST_vector (Some \<lparr>vibe_v = JStr ''cozy'', price_preference = JStr ''low''\<rparr>)
           (\<lambda>a. Some (Some [Some [1]])) (\<lambda>a. Some \<lparr>data = Some [], error = None\<rparr>))
     = JArray EMERGENCY_LIST"
  using
    vector_fallback_200 [of "Some \<lparr>vibe_v = JNum 7, price_preference = JStr ''low''\<rparr>"
      "\<lambda>a. Some (Some [Some [1]])" "\<lambda>a. Some \<lparr>data = Some [], error = None\<rparr>"]
    vector_fallback_200 [of "Some \<lparr>vibe_v = JStr ''cozy'', price_preference = JStr ''low''\<rparr>"
      "\<lambda>a. None" "\<lambda>a. Some \<lparr>data = Some [], error = None\<rparr>"]
    vector_fallback_200 [of "Some \<lparr>vibe_v = JStr ''cozy'', price_preference = JStr ''low''\<rparr>"
      "\<lambda>a. Some (Some [Some [1]])"
      "\<lambda>a. Some \<lparr>data = Some (take 1 EMERGENCY_LIST), error = Some ''timeout''\<rparr>"]
    vector_fallback_200 [of "Some \<lparr>vibe_v = JStr ''cozy'', price_preference = JStr ''low''\<rparr>"
      "\<lambda>a. Some (Some [Some [1]])" "\<lambda>a. Some \<lparr>data = Some [], error = None\<rparr>"]
  by simp

text \<open>
  Claim C10. The body of every response of the vector-search handler is a JSON array
  with at least one element: the emergency list, or else the rows the RPC returned.
\<close>

theorem vector_never_empty:
  "\<exists>xs. body (POST_vector parsed emb rpc) = JArray xs \<and> xs \<noteq> [] \<and>
        (xs = EMERGENCY_LIST \<or>
         (\<exists>q d qe r. parsed = Some q \<and> emb (embed_args_of q) = Some d \<and>
            first_embedding d = Some qe \<and> rpc (rpc_args_of q qe) = Some r \<and>
            data r = Some xs))"
  by (auto simp: POST_vector_def NextResponse_json_def EMERGENCY_LIST_nonempty split: option.splits)

text \<open>The theorem at a request for which the RPC yields one row: that row is the body.\<close>

theorem vector_never_empty_witness:
  "\<exists>xs. body (POST_vector (Some \<lparr>vibe_v = JStr ''cozy'', price_preference = JStr ''high''\<rparr>)
                (\<lambda>a. Some (Some [Some [1]]))
                (\<lambda>a. Some \<lparr>data = Some (take 1 EMERGENCY_LIST), error = None\<rparr>))
          = JArray xs \<and> xs \<noteq> []"
  using vector_never_empty [of "Some \<lparr>vibe_v = JStr ''cozy'', price_preference = JStr ''high''\<rparr>"
      "\<lambda>a. Some (Some [Some [1]])"
      "\<lambda>a. Some \<lparr>data = Some (take 1 EMERGENCY_LIST), error = None\<rparr>"]
  by blast

section \<open>Facts about the places-search handler\<close>

text \<open>The handler once the key is set and the upstream call has returned \<open>d\<close>.\<close>

lemma POST_places_upstream:
  assumes "truthy_str key" and "fetch_u (requestBody (the key) q) = Some d"
  shows "POST_places key (Some q) fetch_u =
    (if places d = None \<or> places d = Some []
     then (if truthy_str (pageToken q) then NextResponse_json (JPage [] None)
           else NextResponse_json (JPage EMERGENCY_LIST_places None))
     else NextResponse_json
            (JPage (filter (post_filter (priceLevels_of (budget_q q)))
                      (map (transform (vibe_q q)) (the (places d))))
                   (if truthy_str (nextPageToken_u d) then nextPageToken_u d else None)))"
  using assms by (simp add: POST_places_def)

text \<open>
  Claim C9. When the upstream call returns no places and the request carried a page
  token (a non-empty string, which is what \<^verbatim>\<open>if (pageToken)\<close> tests), the response is
  \<^verbatim>\<open>{restaurants: [], nextPageToken: null}\<close>, which is not the fallback; when the request
  carried no page token, the response is the emergency list with a \<^verbatim>\<open>null\<close> token.
  Both with status 200.
\<close>

theorem places_empty_page:
  assumes "truthy_str key"
    and "fetch_u (requestBody (the key) q) = Some d"
    and "places d = None \<or> places d = Some []"
  shows "(truthy_str (pageToken q) \<longrightarrow>
            POST_places key (Some q) fetch_u = \<lparr>status = 200, body = JPage [] None\<rparr>) \<and>
         (\<not> truthy_str (pageToken q) \<longrightarrow>
            POST_places key (Some q) fetch_u
              = \<lparr>status = 200, body = JPage EMERGENCY_LIST_places None\<rparr>) \<and>
         JPage [] None \<noteq> JPage EMERGENCY_LIST_places None \<and>
         length EMERGENCY_LIST_places = 5"
  using assms(3) POST_places_upstream [of key fetch_u q d, OF assms(1,2)]
  by (auto simp: NextResponse_json_def EMERGENCY_LIST_places_def)

text \<open>The theorem at a medium-budget request, with and without a page token.\<close>

theorem places_empty_page_witness:
  "POST_places (Some ''k'') (Some (sample_query ''medium'' (Some ''t1'')))
     (\<lambda>u. Some \<lparr>places = Some [], nextPageToken_u = None\<rparr>)
    = \<lparr>status = 200, body = JPage [] None\<rparr> \<and>
   POST_places (Some ''k'') (Some (sample_query ''medium'' None))
     (\<lambda>u. Some \<lparr>places = Some [], nextPageToken_u = None\<rparr>)
    = \<lparr>status = 200, body = JPage EMERGENCY_LIST_places None\<rparr>"
  using
    places_empty_page [of "Some ''k''" "\<lambda>u. Some \<lparr>places = Some [], nextPageToken_u = None\<rparr>"
      "sample_query ''medium'' (Some ''t1'')" "\<lparr>places = Some [], nextPageToken_u = None\<rparr>"]
    places_empty_page [of "Some ''k''" "\<lambda>u. Some \<lparr>places = Some [], nextPageToken_u = None\<rparr>"
      "sample_query ''medium'' None" "\<lparr>places = Some [], nextPageToken_u = None\<rparr>"]
  by (simp add: sample_query_def)

lemma priceNum_each:
  "priceNum (Some ''PRICE_LEVEL_FREE'') = 0"
  "priceNum (Some ''PRICE_LEVEL_INEXPENSIVE'') = 1"
  "priceNum (Some ''PRICE_LEVEL_MODERATE'') = 2"
  "priceNum (Some ''PRICE_LEVEL_EXPENSIVE'') = 3"
  "priceNum (Some ''PRICE_LEVEL_VERY_EXPENSIVE'') = 4"
  by (simp_all add: priceNum_def)

lemma priceLevels_each:
  "priceLevels_of ''low'' = [''PRICE_LEVEL_FREE'', ''PRICE_LEVEL_INEXPENSIVE'']"
  "priceLevels_of ''medium'' = [''PRICE_LEVEL_MODERATE'']"
  "priceLevels_of ''high'' = [''PRICE_LEVEL_EXPENSIVE'', ''PRICE_LEVEL_VERY_EXPENSIVE'']"
  by (simp_all add: priceLevels_of_def)

lemma POST_vector_rpc:
  assumes "truthy (vibe_v vq)" and "typeof (vibe_v vq) = ''string''"
    and "emb (embed_args_of vq) = Some e" and "first_embedding e = Some qe"
  shows "POST_vector (Some vq) emb rpc =
    (case rpc (rpc_args_of vq qe) of
       None \<Rightarrow> NextResponse_json (JArray EMERGENCY_LIST)
     | Some r \<Rightarrow>
        if error r \<noteq> None \<or> data r = None \<or> data r = Some []
        then NextResponse_json (JArray EMERGENCY_LIST)
        else NextResponse_json (JArray (the (data r))))"
  using assms by (simp add: POST_vector_def split: option.splits)

lemma rpc_args_tiers:
  "price_preference vq = JStr ''low'' \<Longrightarrow> rpc_args_of vq qe =
      \<lparr>query_embedding = qe, match_threshold = 0.5, match_count = 5,
       min_price = Some 0, max_price = Some 1\<rparr>"
  "price_preference vq = JStr ''medium'' \<Longrightarrow> rpc_args_of vq qe =
      \<lparr>query_embedding = qe, match_threshold = 0.5, match_count = 5,
       min_price = Some 2, max_price = Some 2\<rparr>"
  "price_preference vq = JStr ''high'' \<Longrightarrow> rpc_args_of vq qe =
      \<lparr>query_embedding = qe, match_threshold = 0.5, match_count = 5,
       min_price = Some 3, max_price = Some 4\<rparr>"
  by (simp_all add: rpc_args_of_def price_range_def)

lemma requestBody_levels:
  "priceLevels_u (requestBody k q) =
     (if priceLevels_of (budget_q q) \<noteq> [] then Some (priceLevels_of (budget_q q)) else None)"
  by (simp add: requestBody_def Let_def)

lemma post_filter_transform:
  "post_filter ls (transform v p) =
     (ls = [] \<or> (\<exists>l. priceLevel p = Some l \<and> l \<in> set ls))"
  by (auto simp: post_filter_def transform_def split: option.splits)

text \<open>
  Claim C7. The vector-search handler: for \<^verbatim>\<open>low\<close>, \<^verbatim>\<open>medium\<close>, \<^verbatim>\<open>high\<close> the
  arguments it builds for \<^verbatim>\<open>match_places\<close> carry the bounds (0,1), (2,2), (3,4), and
  once the vibe is valid and an embedding is there its response is decided by the RPC's
  answer at exactly those arguments. The places-search handler: the price levels it
  selects for the three budgets are the ones the \<^verbatim>\<open>switch\<close> numbers 0 and 1, 2, 3 and
  4, it sends them upstream, and when the upstream call returns places, the restaurants
  in the response are exactly the transformed places whose own price level is among the
  selected ones (all of them when the budget is none of the three), so their numbers lie
  in the budget's range, and a place tagged \<^verbatim>\<open>PRICE_LEVEL_INEXPENSIVE\<close> is not in a
  medium-budget response.
\<close>

theorem price_tiers:
  "(price_preference vq = JStr ''low'' \<longrightarrow>
      rpc_args_of vq qe = \<lparr>query_embedding = qe, match_threshold = 0.5, match_count = 5,
                            min_price = Some 0, max_price = Some 1\<rparr>) \<and>
   (price_preference vq = JStr ''medium'' \<longrightarrow>
      rpc_args_of vq qe = \<lparr>query_embedding = qe, match_threshold = 0.5, match_count = 5,
                            min_price = Some 2, max_price = Some 2\<rparr>) \<and>
   (price_preference vq = JStr ''high'' \<longrightarrow>
      rpc_args_of vq qe = \<lparr>query_embedding = qe, match_threshold = 0.5, match_count = 5,
                            min_price = Some 3, max_price = Some 4\<rparr>) \<and>
   (truthy (vibe_v vq) \<and> typeof (vibe_v vq) = ''string'' \<and>
    emb (embed_args_of vq) = Some e \<and> first_embedding e = Some qe \<longrightarrow>
      POST_vector (Some vq) emb rpc =
        (case rpc (rpc_args_of vq qe) of
           None \<Rightarrow> NextResponse_json (JArray EMERGENCY_LIST)
         | Some r \<Rightarrow>
            if error r \<noteq> None \<or> data r = None \<or> data r = Some []
            then NextResponse_json (JArray EMERGENCY_LIST)
            else NextResponse_json (JArray (the (data r))))) \<and>
   priceLevels_of ''low'' = [''PRICE_LEVEL_FREE'', ''PRICE_LEVEL_INEXPENSIVE''] \<and>
   priceLevels_of ''medium'' = [''PRICE_LEVEL_MODERATE''] \<and>
   priceLevels_of ''high'' = [''PRICE_LEVEL_EXPENSIVE'', ''PRICE_LEVEL_VERY_EXPENSIVE''] \<and>
   priceNum (Some ''PRICE_LEVEL_FREE'') = 0 \<and>
   priceNum (Some ''PRICE_LEVEL_INEXPENSIVE'') = 1 \<and>
   priceNum (Some ''PRICE_LEVEL_MODERATE'') = 2 \<and>
   priceNum (Some ''PRICE_LEVEL_EXPENSIVE'') = 3 \<and>
   priceNum (Some ''PRICE_LEVEL_VERY_EXPENSIVE'') = 4 \<and>
   priceLevels_u (requestBody k q) =
     (if priceLevels_of (budget_q q) \<noteq> [] then Some (priceLevels_of (budget_q q)) else None) \<and>
   (truthy_str key \<and> fetch_u (requestBody (the key) q) = Some d \<and>
    places d = Some ps \<and> ps \<noteq> [] \<longrightarrow>
      (\<exists>rs tok. body (POST_places key (Some q) fetch_u) = JPage rs tok \<and>
         rs = map (transform (vibe_q q))
                (filter (\<lambda>p. priceLevels_of (budget_q q) = [] \<or>
                          (\<exists>l. priceLevel p = Some l \<and> l \<in> set (priceLevels_of (budget_q q)))) ps) \<and>
         (budget_q q = ''low'' \<longrightarrow> (\<forall>r\<in>set rs. price_level r = 0 \<or> price_level r = 1)) \<and>
         (budget_q q = ''medium'' \<longrightarrow> (\<forall>r\<in>set rs. price_level r = 2)) \<and>
         (budget_q q = ''high'' \<longrightarrow> (\<forall>r\<in>set rs. price_level r = 3 \<or> price_level r = 4)) \<and>
         (\<forall>p\<in>set ps. budget_q q = ''medium'' \<and> priceLevel p = Some ''PRICE_LEVEL_INEXPENSIVE''
             \<longrightarrow> transform (vibe_q q) p \<notin> set rs)))"
proof -
  have succ: "\<exists>rs tok. body (POST_places key (Some q) fetch_u) = JPage rs tok \<and>
         rs = map (transform (vibe_q q))
                (filter (\<lambda>p. priceLevels_of (budget_q q) = [] \<or>
                          (\<exists>l. priceLevel p = Some l \<and> l \<in> set (priceLevels_of (budget_q q)))) ps) \<and>
         (budget_q q = ''low'' \<longrightarrow> (\<forall>r\<in>set rs. price_level r = 0 \<or> price_level r = 1)) \<and>
         (budget_q q = ''medium'' \<longrightarrow> (\<forall>r\<in>set rs. price_level r = 2)) \<and>
         (budget_q q = ''high'' \<longrightarrow> (\<forall>r\<in>set rs. price_level r = 3 \<or> price_level r = 4)) \<and>
         (\<forall>p\<in>set ps. budget_q q = ''medium'' \<and> priceLevel p = Some ''PRICE_LEVEL_INEXPENSIVE''
             \<longrightarrow> transform (vibe_q q) p \<notin> set rs)"
    if h: "truthy_str key" "fetch_u (requestBody (the key) q) = Some d"
    "places d = Some ps" "ps \<noteq> []"
  proof -
    define rs where "rs = map (transform (vibe_q q))
                (filter (\<lambda>p. priceLevels_of (budget_q q) = [] \<or>
                          (\<exists>l. priceLevel p = Some l \<and> l \<in> set (priceLevels_of (budget_q q)))) ps)"
    have b: "body (POST_places key (Some q) fetch_u) =
       JPage rs (if truthy_str (nextPageToken_u d) then nextPageToken_u d else None)"
      using h(3,4) POST_places_upstream [of key fetch_u q d, OF h(1,2)]
      by (simp add: NextResponse_json_def rs_def filter_map comp_def post_filter_transform)
    have lo: "\<forall>r\<in>set rs. price_level r = 0 \<or> price_level r = 1" if "budget_q q = ''low''"
      using that by (auto simp: rs_def priceLevels_of_def transform_def priceNum_def)
    have me: "\<forall>r\<in>set rs. price_level r = 2" if "budget_q q = ''medium''"
      using that by (auto simp: rs_def priceLevels_of_def transform_def priceNum_def)
    have hi: "\<forall>r\<in>set rs. price_level r = 3 \<or> price_level r = 4" if "budget_q q = ''high''"
      using that by (auto simp: rs_def priceLevels_of_def transform_def priceNum_def)
    have ex: "transform (vibe_q q) p \<notin> set rs"
      if "budget_q q = ''medium''" "priceLevel p = Some ''PRICE_LEVEL_INEXPENSIVE''" for p
    proof
      assume "transform (vibe_q q) p \<in> set rs"
      with me [OF that(1)] have "price_level (transform (vibe_q q) p) = 2" by blast
      with that(2) show False by (simp add: transform_def priceNum_def)
    qed
    show ?thesis
      using b lo me hi ex unfolding rs_def [symmetric] by blast
  qed
  have vec: "POST_vector (Some vq) emb rpc =
        (case rpc (rpc_args_of vq qe) of
           None \<Rightarrow> NextResponse_json (JArray EMERGENCY_LIST)
         | Some r \<Rightarrow>
            if error r \<noteq> None \<or> data r = None \<or> data r = Some []
            then NextResponse_json (JArray EMERGENCY_LIST)
            else NextResponse_json (JArray (the (data r))))"
    if "truthy (vibe_v vq) \<and> typeof (vibe_v vq) = ''string'' \<and>
        emb (embed_args_of vq) = Some e \<and> first_embedding e = Some qe"
    using that POST_vector_rpc [of vq emb e qe rpc] by blast
  show ?thesis
    apply (intro conjI impI)
    using rpc_args_tiers [of vq qe] priceLevels_each priceNum_each requestBody_levels [of k q]
    apply (simp_all only:)
    subgoal using vec by blast
    subgoal using succ by blast
    done
qed

text \<open>
  The theorem at a medium preference with an RPC that answers only when called with the
  bounds (2,2), and at a medium-budget request for which the upstream returns an
  inexpensive and a moderate place: only the moderate one is in the response.
\<close>

theorem price_tiers_witness:
  "body (POST_vector (Some \<lparr>vibe_v = JStr ''cozy'', price_preference = JStr ''medium''\<rparr>)
      (\<lambda>a. Some (Some [Some [1]]))
      (\<lambda>a. if min_price a = Some 2 \<and> max_price a = Some 2
            then Some \<lparr>data = Some [sample ''r1'' ''Thai''], error = None\<rparr> else None))
     = JArray [sample ''r1'' ''Thai''] \<and>
   body (POST_places (Some ''k'') (Some (sample_query ''medium'' None))
      (\<lambda>u. Some \<lparr>places = Some [sample_place ''a'' (Some ''PRICE_LEVEL_INEXPENSIVE''),
                                 sample_place ''b'' (Some ''PRICE_LEVEL_MODERATE'')],
                  nextPageToken_u = None\<rparr>))
     = JPage [transform ''cozy'' (sample_place ''b'' (Some ''PRICE_LEVEL_MODERATE''))] None"
proof -
  let ?d = "\<lparr>places = Some [sample_place ''a'' (Some ''PRICE_LEVEL_INEXPENSIVE''),
                                 sample_place ''b'' (Some ''PRICE_LEVEL_MODERATE'')],
                  nextPageToken_u = None\<rparr>"
  let ?vq = "\<lparr>vibe_v = JStr ''cozy'', price_preference = JStr ''medium''\<rparr>"
  let ?rpc = "\<lambda>a. if min_price a = Some 2 \<and> max_price a = Some 2
            then Some \<lparr>data = Some [sample ''r1'' ''Thai''], error = None\<rparr> else None"
  note t = price_tiers [of ?vq "[1]" "\<lambda>a. Some (Some [Some [1]])" "Some [Some [1]]" ?rpc
      "''k''" "sample_query ''medium'' None" "Some ''k''" "\<lambda>u. Some ?d" ?d
      "[sample_place ''a'' (Some ''PRICE_LEVEL_INEXPENSIVE''),
                                 sample_place ''b'' (Some ''PRICE_LEVEL_MODERATE'')]"]
  have tok: "\<exists>t. body (POST_places (Some ''k'') (Some (sample_query ''medium'' None)) (\<lambda>u. Some ?d)) = JPage rs t
     \<Longrightarrow> body (POST_places (Some ''k'') (Some (sample_query ''medium'' None)) (\<lambda>u. Some ?d)) = JPage rs None" for rs
    by (auto simp: POST_places_def NextResponse_json_def)
  from t have a: "rpc_args_of ?vq [1] = \<lparr>query_embedding = [1], match_threshold = 0.5, match_count = 5,
                            min_price = Some 2, max_price = Some 2\<rparr>"
    by simp
  from t have "POST_vector (Some ?vq) (\<lambda>a. Some (Some [Some [1]])) ?rpc =
        (case ?rpc (rpc_args_of ?vq [1]) of
           None \<Rightarrow> NextResponse_json (JArray EMERGENCY_LIST)
         | Some r \<Rightarrow>
            if error r \<noteq> None \<or> data r = None \<or> data r = Some []
            then NextResponse_json (JArray EMERGENCY_LIST)
            else NextResponse_json (JArray (the (data r))))"
    by simp
  then have v: "body (POST_vector (Some ?vq) (\<lambda>a. Some (Some [Some [1]])) ?rpc) = JArray [sample ''r1'' ''Thai'']"
    unfolding a by (simp add: NextResponse_json_def)
  from t have "\<exists>tok. body (POST_places (Some ''k'') (Some (sample_query ''medium'' None)) (\<lambda>u. Some ?d))
     = JPage [transform ''cozy'' (sample_place ''b'' (Some ''PRICE_LEVEL_MODERATE''))] tok"
    by (auto simp: sample_query_def sample_place_def priceLevels_of_def)
  then have p: "body (POST_places (Some ''k'') (Some (sample_query ''medium'' None)) (\<lambda>u. Some ?d))
     = JPage [transform ''cozy'' (sample_place ''b'' (Some ''PRICE_LEVEL_MODERATE''))] None"
    by (rule tok)
  from v p show ?thesis by simp
qed

section \<open>Facts about the page component\<close>

lemmas eval_defs = handleSpin_def handleSpin_data_def handleSkip_def startSpinning_def
  spin_request_def pick_def skipCount_def setLocation_def setVibe_def setBudget_def
  setTransport_def setCoordinates_def rerender_def reset_effect_def deps_def
  initial_state_def sample_def page_of_def thai_page_def Let_def
  unseen_def newRestaurants_def uniqueNew_def updatedList_def available_def
  updatedSkipped_def availableRestaurants_def pool_ids_def

lemma pick_in_set: "xs \<noteq> [] \<Longrightarrow> pick xs rnd \<in> set xs"
  by (simp add: pick_def)

lemma uniqueNew_fresh: "r \<in> set (uniqueNew s rs) \<Longrightarrow> id_r r \<notin> pool_ids s"
  by (auto simp: uniqueNew_def pool_ids_def list_ex_iff)

lemma uniqueNew_distinct: "distinct (map id_r rs) \<Longrightarrow> distinct (map id_r (uniqueNew s rs))"
  by (simp add: uniqueNew_def newRestaurants_def distinct_map_filter)

lemma set_available: "set (available s rs) \<subseteq> set (updatedList s rs)"
  by (auto simp: available_def updatedList_def)

lemma pick_available: "available s rs \<noteq> [] \<Longrightarrow> pick (available s rs) rnd \<in> set (updatedList s rs)"
  using pick_in_set [of "available s rs" rnd] set_available [of s rs] by blast

lemma pick_unseen: "unseen s \<noteq> [] \<Longrightarrow> pick (unseen s) rnd \<in> set (restaurants s)"
  using pick_in_set [of "unseen s" rnd] by (auto simp: unseen_def)

lemma pick_availableRestaurants:
  "availableRestaurants s w \<noteq> [] \<Longrightarrow> pick (availableRestaurants s w) rnd \<in> set (restaurants s)"
  using pick_in_set [of "availableRestaurants s w" rnd] by (auto simp: availableRestaurants_def)

lemma handleSpin_data_pool:
  "restaurants (fst (handleSpin_data req rs tok rnd s0)) = restaurants s0 \<or>
   restaurants (fst (handleSpin_data req rs tok rnd s0)) = updatedList s0 rs"
  by (simp add: handleSpin_data_def Let_def startSpinning_def)

lemma handleSpin_data_seen:
  "seenIds s0 \<subseteq> seenIds (fst (handleSpin_data req rs tok rnd s0)) \<and>
   seenIds (fst (handleSpin_data req rs tok rnd s0))
     \<subseteq> seenIds s0 \<union> pool_ids (fst (handleSpin_data req rs tok rnd s0))"
  using pick_available [of s0 rs rnd]
  by (auto simp: handleSpin_data_def Let_def startSpinning_def pool_ids_def)

lemma handleSpin_pool:
  "restaurants (fst (handleSpin a rnd s)) = restaurants s \<or>
   (\<exists>rs tok. a (spin_request s) = Some (JPage rs tok) \<and>
       restaurants (fst (handleSpin a rnd s)) = restaurants s @ uniqueNew s rs)"
proof (cases "a (spin_request s)")
  case None
  then show ?thesis by (simp add: handleSpin_def Let_def startSpinning_def)
next
  case (Some b)
  show ?thesis
  proof (cases b)
    case (JArray xs)
    with Some show ?thesis by (simp add: handleSpin_def Let_def startSpinning_def)
  next
    case (JPage rs tok)
    have u: "updatedList (s\<lparr>loading := False, winner := None\<rparr>) rs = restaurants s @ uniqueNew s rs"
      by (simp add: updatedList_def uniqueNew_def newRestaurants_def)
    from JPage Some u
      handleSpin_data_pool [of "spin_request s" rs tok rnd "s\<lparr>loading := False, winner := None\<rparr>"]
    show ?thesis by (auto simp add: handleSpin_def Let_def startSpinning_def)
  qed
qed

lemma handleSpin_seen:
  "seenIds s \<subseteq> seenIds (fst (handleSpin a rnd s)) \<and>
   seenIds (fst (handleSpin a rnd s)) \<subseteq> seenIds s \<union> pool_ids (fst (handleSpin a rnd s))"
proof (cases "a (spin_request s)")
  case None
  then show ?thesis using pick_unseen [of s rnd]
    by (auto simp: handleSpin_def Let_def startSpinning_def pool_ids_def)
next
  case (Some b)
  show ?thesis
  proof (cases b)
    case (JArray xs)
    with Some show ?thesis using pick_unseen [of s rnd]
      by (auto simp: handleSpin_def Let_def startSpinning_def pool_ids_def)
  next
    case (JPage rs tok)
    from JPage Some pick_unseen [of s rnd]
      handleSpin_data_seen [of "s\<lparr>loading := False, winner := None\<rparr>" "spin_request s" rs tok rnd]
    show ?thesis by (auto simp: handleSpin_def Let_def startSpinning_def pool_ids_def)
  qed
qed

lemma handleSkip_pool:
  "restaurants (fst (handleSkip a rnd s)) = restaurants (fst (handleSpin a rnd s)) \<or>
   restaurants (fst (handleSkip a rnd s)) = restaurants s"
  by (simp add: handleSkip_def Let_def startSpinning_def split: option.splits)

lemma handleSkip_seen:
  "seenIds s \<subseteq> seenIds (fst (handleSkip a rnd s)) \<and>
   seenIds (fst (handleSkip a rnd s)) \<subseteq> seenIds s \<union> pool_ids (fst (handleSkip a rnd s))"
proof (cases "winner s")
  case None
  then show ?thesis by (simp add: handleSkip_def)
next
  case (Some w)
  show ?thesis
  proof (cases "availableRestaurants s w = []")
    case True
    with Some handleSpin_seen [of s a rnd] show ?thesis
      by (simp add: handleSkip_def pool_ids_def)
  next
    case False
    with Some pick_availableRestaurants [of s w rnd] show ?thesis
      by (auto simp: handleSkip_def Let_def startSpinning_def pool_ids_def)
  qed
qed
lemma run_append: "run (es1 @ es2) s = run es2 (run es1 s)"
  by (induction es1 arbitrary: s) auto

lemma handleSpin_pool_ids: "pool_ids s \<subseteq> pool_ids (fst (handleSpin a rnd s))"
  using handleSpin_pool [of a rnd s] by (auto simp: pool_ids_def)

lemma handleSkip_pool_ids: "pool_ids s \<subseteq> pool_ids (fst (handleSkip a rnd s))"
  using handleSkip_pool [of a rnd s] handleSpin_pool_ids [of s a rnd] by (auto simp: pool_ids_def)

lemma step_seen:
  assumes "keeps_filters e"
  shows "seenIds s \<subseteq> seenIds (fst (step e s)) \<and>
         seenIds (fst (step e s)) \<subseteq> seenIds s \<union> pool_ids (fst (step e s)) \<and>
         pool_ids s \<subseteq> pool_ids (fst (step e s))"
proof (cases e)
  case (Spin a rnd)
  then show ?thesis using handleSpin_seen [of s a rnd] handleSpin_pool_ids [of s a rnd] by simp
next
  case (Skip a rnd)
  then show ?thesis using handleSkip_seen [of s a rnd] handleSkip_pool_ids [of s a rnd] by simp
next
  case StartOver
  then show ?thesis by (simp add: pool_ids_def)
next
  case (SetCoordinates v)
  then show ?thesis by (simp add: setCoordinates_def rerender_def deps_def pool_ids_def)
qed (use assms in simp_all)

lemma run_seen:
  assumes "seenIds s \<subseteq> pool_ids s" and "\<forall>e\<in>set evs. keeps_filters e"
  shows "seenIds s \<subseteq> seenIds (run evs s) \<and> seenIds (run evs s) \<subseteq> pool_ids (run evs s) \<and>
         pool_ids s \<subseteq> pool_ids (run evs s)"
  using assms
proof (induction evs arbitrary: s)
  case Nil
  then show ?case by simp
next
  case (Cons e evs)
  from Cons.prems have k: "keeps_filters e" and ks: "\<forall>e\<in>set evs. keeps_filters e" by simp_all
  note st = step_seen [OF k, of s]
  from st Cons.prems(1) have inv: "seenIds (fst (step e s)) \<subseteq> pool_ids (fst (step e s))" by blast
  from Cons.IH [OF inv ks] st show ?case by auto
qed

text \<open>
  Claim C6. Along every sequence of spins, skips and "Start Over" clicks that leaves the
  four filter inputs alone, started in a state whose seen ids are ids of the pool (the
  initial state is one), the set of seen ids at any earlier point is contained in the set
  at any later point, the pool loses no id, and every seen id is the id of a restaurant
  in the pool.
\<close>

theorem seen_grows_within_pool:
  assumes "seenIds s \<subseteq> pool_ids s" and "\<forall>e\<in>set evs. keeps_filters e"
  shows "\<forall>es1 es2. evs = es1 @ es2 \<longrightarrow>
           seenIds (run es1 s) \<subseteq> seenIds (run evs s) \<and>
           pool_ids (run es1 s) \<subseteq> pool_ids (run evs s) \<and>
           seenIds (run evs s) \<subseteq> pool_ids (run evs s)"
proof (intro allI impI)
  fix es1 es2 assume e: "evs = es1 @ es2"
  with assms(2) have k1: "\<forall>e\<in>set es1. keeps_filters e" and k2: "\<forall>e\<in>set es2. keeps_filters e"
    by simp_all
  from run_seen [OF assms(1) k1] have inv: "seenIds (run es1 s) \<subseteq> pool_ids (run es1 s)" by blast
  from run_seen [OF inv k2] show "seenIds (run es1 s) \<subseteq> seenIds (run evs s) \<and>
           pool_ids (run es1 s) \<subseteq> pool_ids (run evs s) \<and>
           seenIds (run evs s) \<subseteq> pool_ids (run evs s)"
    by (simp add: e run_append)
qed

text \<open>The theorem at a run of a spin, a skip, "Start Over" and another spin.\<close>

theorem seen_grows_within_pool_witness:
  "seenIds (run [SetLocation ''Paris'', SetVibe ''cozy'', Spin thai_page 0] initial_state)
     \<subseteq> seenIds (run [Skip thai_page 5, StartOver, Spin thai_page 2]
          (run [SetLocation ''Paris'', SetVibe ''cozy'', Spin thai_page 0] initial_state)) \<and>
   seenIds (run [Skip thai_page 5, StartOver, Spin thai_page 2]
          (run [SetLocation ''Paris'', SetVibe ''cozy'', Spin thai_page 0] initial_state))
     \<subseteq> pool_ids (run [Skip thai_page 5, StartOver, Spin thai_page 2]
          (run [SetLocation ''Paris'', SetVibe ''cozy'', Spin thai_page 0] initial_state))"
proof -
  let ?s = "run [SetLocation ''Paris'', SetVibe ''cozy'', Spin thai_page 0] initial_state"
  have i: "seenIds ?s \<subseteq> pool_ids ?s" by (simp add: eval_defs)
  have k: "\<forall>e\<in>set [Skip thai_page 5, StartOver, Spin thai_page 2]. keeps_filters e" by simp
  from seen_grows_within_pool [OF i k] have
    "[Skip thai_page 5, StartOver, Spin thai_page 2] = [] @ [Skip thai_page 5, StartOver, Spin thai_page 2] \<longrightarrow>
      seenIds (run [] ?s) \<subseteq> seenIds (run [Skip thai_page 5, StartOver, Spin thai_page 2] ?s) \<and>
      pool_ids (run [] ?s) \<subseteq> pool_ids (run [Skip thai_page 5, StartOver, Spin thai_page 2] ?s) \<and>
      seenIds (run [Skip thai_page 5, StartOver, Spin thai_page 2] ?s)
        \<subseteq> pool_ids (run [Skip thai_page 5, StartOver, Spin thai_page 2] ?s)"
    by blast
  then show ?thesis by (simp del: run.simps(2))
qed

lemma append_fresh_distinct:
  assumes "distinct (map id_r xs)" "distinct (map id_r ys)" "\<forall>r\<in>set ys. id_r r \<notin> id_r ` set xs"
  shows "distinct (map id_r (xs @ ys))"
  using assms by (fastforce simp: image_iff)

lemma handleSpin_distinct:
  assumes "distinct (map id_r (restaurants s))" "distinct_pages a"
  shows "distinct (map id_r (restaurants (fst (handleSpin a rnd s))))"
proof -
  from handleSpin_pool [of a rnd s] show ?thesis
  proof
    assume "restaurants (fst (handleSpin a rnd s)) = restaurants s"
    with assms(1) show ?thesis by simp
  next
    assume "\<exists>rs tok. a (spin_request s) = Some (JPage rs tok) \<and>
       restaurants (fst (handleSpin a rnd s)) = restaurants s @ uniqueNew s rs"
    then obtain rs tok where h: "a (spin_request s) = Some (JPage rs tok)"
      "restaurants (fst (handleSpin a rnd s)) = restaurants s @ uniqueNew s rs" by blast
    from assms(2) h(1) have "distinct (map id_r rs)" unfolding distinct_pages_def by blast
    then have d: "distinct (map id_r (uniqueNew s rs))" by (rule uniqueNew_distinct)
    have f: "\<forall>r\<in>set (uniqueNew s rs). id_r r \<notin> id_r ` set (restaurants s)"
      using uniqueNew_fresh [of _ s rs] by (simp add: pool_ids_def)
    show ?thesis unfolding h(2) by (rule append_fresh_distinct [OF assms(1) d f])
  qed
qed

lemma handleSkip_distinct:
  assumes "distinct (map id_r (restaurants s))" "distinct_pages a"
  shows "distinct (map id_r (restaurants (fst (handleSkip a rnd s))))"
  using handleSkip_pool [of a rnd s] handleSpin_distinct [OF assms, of rnd] assms(1) by auto

lemma rerender_pool: "restaurants (rerender s s') = restaurants s' \<or> restaurants (rerender s s') = []"
  by (simp add: rerender_def reset_effect_def)

lemma step_distinct:
  assumes "distinct (map id_r (restaurants s))" "distinct_batches e"
  shows "distinct (map id_r (restaurants (fst (step e s))))"
proof (cases e)
  case (Spin a rnd)
  with assms show ?thesis by (simp add: handleSpin_distinct)
next
  case (Skip a rnd)
  with assms show ?thesis by (simp add: handleSkip_distinct)
next
  case StartOver
  with assms show ?thesis by simp
next
  case (SetLocation v)
  with assms(1) rerender_pool [of s "s\<lparr>location := v\<rparr>"] show ?thesis
    by (auto simp: setLocation_def)
next
  case (SetVibe v)
  with assms(1) rerender_pool [of s "s\<lparr>vibe := v\<rparr>"] show ?thesis
    by (auto simp: setVibe_def)
next
  case (SetBudget v)
  with assms(1) rerender_pool [of s "s\<lparr>budget := v\<rparr>"] show ?thesis
    by (auto simp: setBudget_def)
next
  case (SetTransport v)
  with assms(1) rerender_pool [of s "s\<lparr>transport := v\<rparr>"] show ?thesis
    by (auto simp: setTransport_def)
next
  case (SetCoordinates v)
  with assms(1) rerender_pool [of s "s\<lparr>coordinates := v\<rparr>"] show ?thesis
    by (auto simp: setCoordinates_def)
qed

lemma run_distinct:
  assumes "distinct (map id_r (restaurants s))" "\<forall>e\<in>set evs. distinct_batches e"
  shows "distinct (map id_r (restaurants (run evs s)))"
  using assms
proof (induction evs arbitrary: s)
  case Nil
  then show ?case by simp
next
  case (Cons e evs)
  then show ?case by (simp add: step_distinct)
qed

lemma handleSpin_keeps_entries:
  assumes "i \<in> pool_ids s"
  shows "filter (\<lambda>r. id_r r = i) (restaurants (fst (handleSpin a rnd s)))
           = filter (\<lambda>r. id_r r = i) (restaurants s)"
proof -
  have "filter (\<lambda>r. id_r r = i) (uniqueNew s rs) = []" for rs
    using uniqueNew_fresh [of _ s rs] assms by (auto simp: filter_empty_conv)
  with handleSpin_pool [of a rnd s] show ?thesis by auto
qed

text \<open>
  Claim C2, as stated, fails: a page that itself repeats an id that the pool does not
  hold yet is appended with the repeat. Here the first page carries the id \<open>x\<close> twice.
\<close>

theorem repeated_id_in_batch_enters_pool:
  "\<not> distinct (map id_r (restaurants
        (run [SetLocation ''Paris'', SetVibe ''cozy'',
              Spin (page_of [sample ''x'' ''Thai'', sample ''x'' ''Sushi''] None) 0]
           initial_state)))"
  by (simp add: eval_defs)

text \<open>
  Claim C2, amended. If the ids of the pool are distinct and no page of the endpoint
  repeats an id within the page, the ids of the pool stay distinct along every sequence of
  events. And for every page, also one that repeats ids: the entries of the pool with an
  id that the pool already holds are the same after \<^verbatim>\<open>handleSpin\<close> as before.
\<close>

theorem pool_ids_distinct:
  "(distinct (map id_r (restaurants s)) \<and> (\<forall>e\<in>set evs. distinct_batches e) \<longrightarrow>
      distinct (map id_r (restaurants (run evs s)))) \<and>
   (\<forall>i\<in>pool_ids s.
      filter (\<lambda>r. id_r r = i) (restaurants (fst (handleSpin a rnd s)))
        = filter (\<lambda>r. id_r r = i) (restaurants s))"
  using run_distinct [of s evs] handleSpin_keeps_entries [of _ s a rnd] by blast

lemma distinct_pages_thai: "distinct_pages thai_page"
  by (simp add: distinct_pages_def thai_page_def page_of_def sample_def)

text \<open>
  The theorem at a run from the initial state, and at a pool holding \<open>t1\<close> with a page
  that carries \<open>t1\<close> twice.
\<close>

theorem pool_ids_distinct_witness:
  "distinct (map id_r (restaurants
      (run [SetLocation ''Paris'', SetVibe ''cozy'', Spin thai_page 0, Skip thai_page 1,
            SetBudget ''low'', Spin thai_page 2, Spin thai_page 3] initial_state))) \<and>
   filter (\<lambda>r. id_r r = ''t1'')
     (restaurants (fst (handleSpin (page_of [sample ''t1'' ''Thai'', sample ''t1'' ''Thai''] (Some ''p2'')) 0
        (run [SetLocation ''Paris'', SetVibe ''cozy'',
              Spin (page_of [sample ''t1'' ''Thai''] (Some ''p1'')) 0] initial_state))))
    = [sample ''t1'' ''Thai'']"
proof -
  have d: "distinct (map id_r (restaurants initial_state))"
    by (simp add: initial_state_def)
  have b: "\<forall>e\<in>set [SetLocation ''Paris'', SetVibe ''cozy'', Spin thai_page 0, Skip thai_page 1,
            SetBudget ''low'', Spin thai_page 2, Spin thai_page 3]. distinct_batches e"
    by (simp add: distinct_pages_thai)
  have m: "''t1'' \<in> pool_ids (run [SetLocation ''Paris'', SetVibe ''cozy'',
              Spin (page_of [sample ''t1'' ''Thai''] (Some ''p1'')) 0] initial_state)"
    by (simp add: eval_defs)
  have r: "filter (\<lambda>r. id_r r = ''t1'') (restaurants (run [SetLocation ''Paris'', SetVibe ''cozy'',
              Spin (page_of [sample ''t1'' ''Thai''] (Some ''p1'')) 0] initial_state))
            = [sample ''t1'' ''Thai'']"
    by (simp add: eval_defs)
  from pool_ids_distinct [of initial_state "[SetLocation ''Paris'', SetVibe ''cozy'', Spin thai_page 0, Skip thai_page 1,
            SetBudget ''low'', Spin thai_page 2, Spin thai_page 3]"] d b
    pool_ids_distinct [of "run [SetLocation ''Paris'', SetVibe ''cozy'',
              Spin (page_of [sample ''t1'' ''Thai''] (Some ''p1'')) 0] initial_state" "[]"
        "page_of [sample ''t1'' ''Thai'', sample ''t1'' ''Thai''] (Some ''p2'')" 0] m r
  show ?thesis by (simp del: run.simps)
qed

lemma locals_cleared [simp]:
  "newRestaurants (s\<lparr>loading := l, winner := w\<rparr>) rs = newRestaurants s rs"
  "uniqueNew (s\<lparr>loading := l, winner := w\<rparr>) rs = uniqueNew s rs"
  "updatedList (s\<lparr>loading := l, winner := w\<rparr>) rs = updatedList s rs"
  "available (s\<lparr>loading := l, winner := w\<rparr>) rs = available s rs"
  by (simp_all add: newRestaurants_def uniqueNew_def updatedList_def available_def)

lemma handleSpin_data_effects:
  "\<exists>e. snd (handleSpin_data req rs tok rnd s0) = [Fetch req, e] \<and> \<not> is_Fetch e"
  by (simp add: handleSpin_data_def Let_def)

text \<open>
  Claim C4. The code at two concrete sessions. First: the pool holds \<open>t1\<close> (seen) with
  the token \<open>p1\<close>, and the next page holds \<open>t1\<close> again with the token \<open>p2\<close>. Nothing
  of the page is left after the two filters and a token is present; the handler stores
  \<open>p2\<close> and posts one request, but its alert is \<^verbatim>\<open>You've seen everything!\<close>, the
  message the test before it keeps for the case without a token, and not the "spin
  again" one of the sibling branch. The next spin does fetch with \<open>p2\<close> and offers a
  new restaurant. Second: the skip that raises Thai to 2 calls \<^verbatim>\<open>handleSpin\<close>, which
  filters the fetched page \<open>[t3]\<close> (Thai, with the token \<open>p3\<close>) by the counters of the
  render it closed over and offers \<open>t3\<close>, although with the counters as they are after
  the skip nothing of that page passes.
\<close>

theorem duplicate_batch_alerts_seen_everything:
  "uniqueNew (run [SetLocation ''Paris'', SetVibe ''cozy'',
                   Spin (page_of [sample ''t1'' ''Thai''] (Some ''p1'')) 0] initial_state)
      [sample ''t1'' ''Thai''] = [] \<and>
   truthy_str (Some ''p2'') \<and>
   snd (step (Spin (page_of [sample ''t1'' ''Thai''] (Some ''p2'')) 0)
         (run [SetLocation ''Paris'', SetVibe ''cozy'',
               Spin (page_of [sample ''t1'' ''Thai''] (Some ''p1'')) 0] initial_state))
     = [Fetch \<lparr>location_q = ''Paris'', vibe_q = ''cozy'', budget_q = ''medium'',
               transport_q = ''driving'', lat = None, lng = None, pageToken = Some ''p1''\<rparr>,
        Alert SeenEverything] \<and>
   nextPageToken
     (run [SetLocation ''Paris'', SetVibe ''cozy'',
           Spin (page_of [sample ''t1'' ''Thai''] (Some ''p1'')) 0,
           Spin (page_of [sample ''t1'' ''Thai''] (Some ''p2'')) 0] initial_state) = Some ''p2'' \<and>
   snd (step (Spin (page_of [sample ''s1'' ''Sushi''] None) 0)
         (run [SetLocation ''Paris'', SetVibe ''cozy'',
               Spin (page_of [sample ''t1'' ''Thai''] (Some ''p1'')) 0,
               Spin (page_of [sample ''t1'' ''Thai''] (Some ''p2'')) 0] initial_state))
     = [Fetch \<lparr>location_q = ''Paris'', vibe_q = ''cozy'', budget_q = ''medium'',
               transport_q = ''driving'', lat = None, lng = None, pageToken = Some ''p2''\<rparr>,
        StartSpinning [sample ''t1'' ''Thai'', sample ''s1'' ''Sushi''] (sample ''s1'' ''Sushi'')] \<and>
   snd (step (Skip (page_of [sample ''t3'' ''Thai''] (Some ''p3'')) 0)
         (run [SetLocation ''Paris'', SetVibe ''cozy'',
               Spin (page_of [sample ''t1'' ''Thai''] (Some ''p1'')) 0,
               Skip (page_of [sample ''t2'' ''Thai''] (Some ''p2'')) 0] initial_state))
     = [Fetch \<lparr>location_q = ''Paris'', vibe_q = ''cozy'', budget_q = ''medium'',
               transport_q = ''driving'', lat = None, lng = None, pageToken = Some ''p2''\<rparr>,
        StartSpinning [sample ''t1'' ''Thai'', sample ''t2'' ''Thai'', sample ''t3'' ''Thai'']
          (sample ''t3'' ''Thai'')] \<and>
   newRestaurants
     (run [SetLocation ''Paris'', SetVibe ''cozy'',
           Spin (page_of [sample ''t1'' ''Thai''] (Some ''p1'')) 0,
           Skip (page_of [sample ''t2'' ''Thai''] (Some ''p2'')) 0,
           Skip (page_of [sample ''t3'' ''Thai''] (Some ''p3'')) 0] initial_state)
     [sample ''t3'' ''Thai''] = []"
  by (simp add: eval_defs)

text \<open>A consequence: the first session raises no "spin again" alert.\<close>

theorem duplicate_batch_alerts_seen_everything_witness:
  "Alert NoMatchingSpots \<notin> set
     (snd (step (Spin (page_of [sample ''t1'' ''Thai''] (Some ''p2'')) 0)
         (run [SetLocation ''Paris'', SetVibe ''cozy'',
               Spin (page_of [sample ''t1'' ''Thai''] (Some ''p1'')) 0] initial_state)))"
  using duplicate_batch_alerts_seen_everything by (simp del: run.simps step.simps)

text \<open>
  Claim C5. In a state that passes the input checks, with an empty pool and no token: if
  the endpoint answers with no restaurants and the token \<open>X\<close>, \<^verbatim>\<open>handleSpin\<close> posts one
  request without a page token, stores \<open>X\<close> and raises the "spin again" alert, and the
  next \<^verbatim>\<open>handleSpin\<close>, whatever the endpoint and the random number, posts the same
  request with \<open>X\<close> as page token; if the endpoint answers with no restaurants and no
  token, it raises \<^verbatim>\<open>No restaurants found matching your criteria.\<close>
\<close>

theorem first_fetch_empty:
  assumes "location s \<noteq> [] \<or> coordinates s \<noteq> None"
    and "vibe s \<noteq> []"
    and "restaurants s = []"
    and "nextPageToken s = None"
    and "X \<noteq> []"
  shows "(a (spin_request s) = Some (JPage [] (Some X)) \<longrightarrow>
            handleSpin a rnd s
              = (s\<lparr>loading := False, winner := None, nextPageToken := Some X\<rparr>,
                 [Fetch (spin_request s), Alert NoMatchingSpots]) \<and>
            pageToken (spin_request s) = None \<and>
            (\<forall>a2 rnd2. \<exists>e. snd (handleSpin a2 rnd2 (fst (handleSpin a rnd s)))
                              = [Fetch ((spin_request s)\<lparr>pageToken := Some X\<rparr>), e]
                            \<and> \<not> is_Fetch e)) \<and>
         (a (spin_request s) = Some (JPage [] None) \<longrightarrow>
            handleSpin a rnd s
              = (s\<lparr>loading := False, winner := None\<rparr>,
                 [Fetch (spin_request s), Alert NoRestaurantsFound]))"
proof -
  have un: "unseen s = []" using assms(3) by (simp add: unseen_def)
  have retry: "handleSpin a rnd s
              = (s\<lparr>loading := False, winner := None, nextPageToken := Some X\<rparr>,
                 [Fetch (spin_request s), Alert NoMatchingSpots])"
    if "a (spin_request s) = Some (JPage [] (Some X))"
    using that assms un
    by (auto simp: handleSpin_def handleSpin_data_def newRestaurants_def Let_def)
  have none: "handleSpin a rnd s
              = (s\<lparr>loading := False, winner := None\<rparr>,
                 [Fetch (spin_request s), Alert NoRestaurantsFound])"
    if "a (spin_request s) = Some (JPage [] None)"
    using that assms un
    by (auto simp: handleSpin_def handleSpin_data_def newRestaurants_def Let_def)
  have second: "\<exists>e. snd (handleSpin a2 rnd2 (s\<lparr>loading := False, winner := None, nextPageToken := Some X\<rparr>))
                              = [Fetch ((spin_request s)\<lparr>pageToken := Some X\<rparr>), e]
                            \<and> \<not> is_Fetch e" for a2 rnd2
  proof -
    let ?s1 = "s\<lparr>loading := False, winner := None, nextPageToken := Some X\<rparr>"
    have rq: "spin_request ?s1 = (spin_request s)\<lparr>pageToken := Some X\<rparr>"
      by (simp add: spin_request_def)
    have un1: "unseen ?s1 = []" using assms(3) by (simp add: unseen_def)
    show ?thesis
    proof (cases "a2 (spin_request ?s1)")
      case None
      then show ?thesis using assms un1 rq by (auto simp: handleSpin_def Let_def)
    next
      case (Some b)
      show ?thesis
      proof (cases b)
        case (JArray xs)
        with Some show ?thesis using assms un1 rq by (auto simp: handleSpin_def Let_def)
      next
        case (JPage rs tok)
        from handleSpin_data_effects [of "spin_request ?s1" rs tok rnd2 "?s1\<lparr>loading := False, winner := None\<rparr>"]
        show ?thesis using JPage Some assms un1 rq by (auto simp: handleSpin_def Let_def)
      qed
    qed
  qed
  have pt: "pageToken (spin_request s) = None" using assms(4) by (simp add: spin_request_def)
  show ?thesis using retry none second pt by simp
qed

text \<open>The theorem at the state after typing a location and a vibe, with the token \<open>X\<close>.\<close>

theorem first_fetch_empty_witness:
  "snd (handleSpin (page_of [] (Some ''X'')) 0
          (run [SetLocation ''Paris'', SetVibe ''cozy''] initial_state))
     = [Fetch \<lparr>location_q = ''Paris'', vibe_q = ''cozy'', budget_q = ''medium'',
               transport_q = ''driving'', lat = None, lng = None, pageToken = None\<rparr>,
        Alert NoMatchingSpots] \<and>
   nextPageToken (fst (handleSpin (page_of [] (Some ''X'')) 0
          (run [SetLocation ''Paris'', SetVibe ''cozy''] initial_state))) = Some ''X'' \<and>
   (\<exists>e. snd (handleSpin thai_page 0
               (fst (handleSpin (page_of [] (Some ''X'')) 0
                  (run [SetLocation ''Paris'', SetVibe ''cozy''] initial_state))))
        = [Fetch \<lparr>location_q = ''Paris'', vibe_q = ''cozy'', budget_q = ''medium'',
               transport_q = ''driving'', lat = None, lng = None, pageToken = Some ''X''\<rparr>, e]) \<and>
   snd (handleSpin (page_of [] None) 0
          (run [SetLocation ''Paris'', SetVibe ''cozy''] initial_state))
     = [Fetch \<lparr>location_q = ''Paris'', vibe_q = ''cozy'', budget_q = ''medium'',
               transport_q = ''driving'', lat = None, lng = None, pageToken = None\<rparr>,
        Alert NoRestaurantsFound]"
proof -
  let ?s = "run [SetLocation ''Paris'', SetVibe ''cozy''] initial_state"
  have s: "?s = initial_state\<lparr>location := ''Paris'', vibe := ''cozy''\<rparr>"
    by (simp add: eval_defs)
  have h: "location ?s \<noteq> [] \<or> coordinates ?s \<noteq> None" "vibe ?s \<noteq> []" "restaurants ?s = []"
    "nextPageToken ?s = None" "''X'' \<noteq> []"
    unfolding s by (simp_all add: initial_state_def)
  have q: "spin_request ?s = \<lparr>location_q = ''Paris'', vibe_q = ''cozy'', budget_q = ''medium'',
               transport_q = ''driving'', lat = None, lng = None, pageToken = None\<rparr>"
    unfolding s by (simp add: spin_request_def initial_state_def)
  have p: "page_of [] (Some ''X'') (spin_request ?s) = Some (JPage [] (Some ''X''))"
    "page_of [] None (spin_request ?s) = Some (JPage [] None)"
    by (simp_all add: page_of_def)
  from first_fetch_empty [OF h, of "page_of [] (Some ''X'')" 0] p(1)
  have a: "handleSpin (page_of [] (Some ''X'')) 0 ?s
             = (?s\<lparr>loading := False, winner := None, nextPageToken := Some ''X''\<rparr>,
                [Fetch (spin_request ?s), Alert NoMatchingSpots])"
    and b: "\<exists>e. snd (handleSpin thai_page 0 (fst (handleSpin (page_of [] (Some ''X'')) 0 ?s)))
                 = [Fetch ((spin_request ?s)\<lparr>pageToken := Some ''X''\<rparr>), e] \<and> \<not> is_Fetch e"
    by blast+
  from first_fetch_empty [OF h, of "page_of [] None" 0] p(2)
  have c: "handleSpin (page_of [] None) 0 ?s
             = (?s\<lparr>loading := False, winner := None\<rparr>,
                [Fetch (spin_request ?s), Alert NoRestaurantsFound])"
    by blast
  from b obtain e where e: "snd (handleSpin thai_page 0 (fst (handleSpin (page_of [] (Some ''X'')) 0 ?s)))
                 = [Fetch ((spin_request ?s)\<lparr>pageToken := Some ''X''\<rparr>), e]" by blast
  have "snd (handleSpin (page_of [] (Some ''X'')) 0 ?s)
          = [Fetch (spin_request ?s), Alert NoMatchingSpots]"
    "nextPageToken (fst (handleSpin (page_of [] (Some ''X'')) 0 ?s)) = Some ''X''"
    "snd (handleSpin (page_of [] None) 0 ?s) = [Fetch (spin_request ?s), Alert NoRestaurantsFound]"
    unfolding a c by simp_all
  with e show ?thesis unfolding q by (simp del: run.simps)
qed

text \<open>
  Claim C3, as stated, fails: after a spin and a skip of a Thai winner, changing the vibe
  empties the pool but the counter of Thai is still 1.
\<close>

theorem skip_counters_survive_filter_change:
  "restaurants (run [SetLocation ''Paris'', SetVibe ''cozy'', Spin thai_page 0, Skip thai_page 0,
                     SetVibe ''spicy''] initial_state) = [] \<and>
   skippedCuisines (run [SetLocation ''Paris'', SetVibe ''cozy'', Spin thai_page 0, Skip thai_page 0,
                     SetVibe ''spicy''] initial_state) ''Thai'' = Some 1 \<and>
   skippedCuisines (run [SetLocation ''Paris'', SetVibe ''cozy'', Spin thai_page 0, Skip thai_page 0,
                     SetVibe ''spicy''] initial_state) \<noteq> Map.empty"
proof -
  have "skippedCuisines (run [SetLocation ''Paris'', SetVibe ''cozy'', Spin thai_page 0, Skip thai_page 0,
                     SetVibe ''spicy''] initial_state) ''Thai'' = Some 1"
    by (simp add: eval_defs)
  moreover have "restaurants (run [SetLocation ''Paris'', SetVibe ''cozy'', Spin thai_page 0, Skip thai_page 0,
                     SetVibe ''spicy''] initial_state) = []"
    by (simp add: eval_defs)
  ultimately show ?thesis by auto
qed

text \<open>
  Claim C3, amended. Setting the location, the vibe, the budget or the transport to a new
  value empties the pool, the seen ids and the next token, and leaves the skip counters as
  they were.
\<close>

theorem filter_change_resets:
  "(v \<noteq> location s \<longrightarrow>
      restaurants (setLocation v s) = [] \<and> seenIds (setLocation v s) = {} \<and>
      nextPageToken (setLocation v s) = None \<and>
      skippedCuisines (setLocation v s) = skippedCuisines s) \<and>
   (v \<noteq> vibe s \<longrightarrow>
      restaurants (setVibe v s) = [] \<and> seenIds (setVibe v s) = {} \<and>
      nextPageToken (setVibe v s) = None \<and>
      skippedCuisines (setVibe v s) = skippedCuisines s) \<and>
   (v \<noteq> budget s \<longrightarrow>
      restaurants (setBudget v s) = [] \<and> seenIds (setBudget v s) = {} \<and>
      nextPageToken (setBudget v s) = None \<and>
      skippedCuisines (setBudget v s) = skippedCuisines s) \<and>
   (v \<noteq> transport s \<longrightarrow>
      restaurants (setTransport v s) = [] \<and> seenIds (setTransport v s) = {} \<and>
      nextPageToken (setTransport v s) = None \<and>
      skippedCuisines (setTransport v s) = skippedCuisines s)"
  by (simp add: setLocation_def setVibe_def setBudget_def setTransport_def rerender_def
      reset_effect_def deps_def)

text \<open>The theorem at the state after a spin and a skip, for a new vibe.\<close>

theorem filter_change_resets_witness:
  "restaurants (setVibe ''spicy''
      (run [SetLocation ''Paris'', SetVibe ''cozy'', Spin thai_page 0, Skip thai_page 0] initial_state)) = [] \<and>
   skippedCuisines (setVibe ''spicy''
      (run [SetLocation ''Paris'', SetVibe ''cozy'', Spin thai_page 0, Skip thai_page 0] initial_state))
    = skippedCuisines
      (run [SetLocation ''Paris'', SetVibe ''cozy'', Spin thai_page 0, Skip thai_page 0] initial_state)"
proof -
  have "''spicy'' \<noteq> vibe (run [SetLocation ''Paris'', SetVibe ''cozy'', Spin thai_page 0, Skip thai_page 0] initial_state)"
    by (simp add: eval_defs)
  with filter_change_resets [of "''spicy''"
      "run [SetLocation ''Paris'', SetVibe ''cozy'', Spin thai_page 0, Skip thai_page 0] initial_state"]
  show ?thesis by blast
qed

text \<open>
  Claim C1. The code at a concrete session: the endpoint offers four Thai restaurants;
  the user spins (winner \<open>t1\<close>) and skips twice. The second skip finds nothing eligible in
  \<^verbatim>\<open>availableRestaurants\<close> and calls \<^verbatim>\<open>handleSpin\<close>, whose \<^verbatim>\<open>unseen\<close> list
  is filtered by seen ids only: it starts the spin with the Thai \<open>t3\<close> as winner, and the
  counter of Thai is 2 from then on. After "Start Over" the next spin takes the same path
  and offers the Thai \<open>t4\<close>.
\<close>

theorem exhausted_category_offered_again:
  "snd (step (Skip thai_page 0)
         (run [SetLocation ''Paris'', SetVibe ''cozy'', Spin thai_page 0, Skip thai_page 0]
            initial_state))
     = [StartSpinning
          [sample ''t1'' ''Thai'', sample ''t2'' ''Thai'', sample ''t3'' ''Thai'', sample ''t4'' ''Thai'']
          (sample ''t3'' ''Thai'')] \<and>
   skippedCuisines
     (run [SetLocation ''Paris'', SetVibe ''cozy'', Spin thai_page 0, Skip thai_page 0,
           Skip thai_page 0] initial_state) ''Thai'' = Some 2 \<and>
   snd (step (Spin thai_page 0)
         (run [SetLocation ''Paris'', SetVibe ''cozy'', Spin thai_page 0, Skip thai_page 0,
               Skip thai_page 0, StartOver] initial_state))
     = [StartSpinning
          [sample ''t1'' ''Thai'', sample ''t2'' ''Thai'', sample ''t3'' ''Thai'', sample ''t4'' ''Thai'']
          (sample ''t4'' ''Thai'')] \<and>
   cuisine (sample ''t3'' ''Thai'') = ''Thai'' \<and> cuisine (sample ''t4'' ''Thai'') = ''Thai''"
  by (simp add: eval_defs)

text \<open>A consequence: that spin offers a Thai restaurant.\<close>

theorem exhausted_category_offered_again_witness:
  "\<exists>l w. snd (step (Spin thai_page 0)
         (run [SetLocation ''Paris'', SetVibe ''cozy'', Spin thai_page 0, Skip thai_page 0,
               Skip thai_page 0, StartOver] initial_state)) = [StartSpinning l w] \<and>
     cuisine w = ''Thai''"
  using exhausted_category_offered_again by (simp add: sample_def)

end
